theory Spec2Isabelle
  imports Main
begin

section \<open>Python strings and scalar values\<close>

text \<open>
  A Python \<open>str\<close> is a sequence of Unicode code points and \<open>len\<close> counts code points.
  The templates of \<open>app.py\<close> contain the em dash U+2014, which is one code point, so a
  string is modelled as a list of code points (natural numbers) and not as a list of
  bytes.  \<open>asc\<close> turns an ASCII literal into such a list.

  Limits of the model: \<open>py_lower\<close> lower-cases the letters A to Z only.  Finite
  floating point values are not among the modelled scalars; the float NaN is.  An integer
  scalar is taken to have a text, as every machine integer has: \<open>str\<close> of an integer of
  more than 4300 digits raises in the interpreter.
\<close>

type_synonym pystr = "nat list"

definition asc :: "string \<Rightarrow> pystr" where
  "asc s = map of_char s"

definition emdash :: nat where
  "emdash = 8212"

definition nl :: nat where
  "nl = 10"

datatype pyval = PStr pystr | PInt int | PBool bool | PNaN | PNone

datatype error = IndexError | AttributeError | KeyError

definition ebind :: "error + 'a \<Rightarrow> ('a \<Rightarrow> error + 'b) \<Rightarrow> error + 'b" where
  "ebind m f = (case m of Inl e \<Rightarrow> Inl e | Inr x \<Rightarrow> f x)"

text \<open>\<open>bool(v)\<close>: the truth value of a scalar.\<close>

fun py_truthy :: "pyval \<Rightarrow> bool" where
  "py_truthy (PStr s) = (s \<noteq> [])"
| "py_truthy (PInt n) = (n \<noteq> 0)"
| "py_truthy (PBool b) = b"
| "py_truthy PNaN = True"
| "py_truthy PNone = False"

text \<open>\<open>str(n)\<close> for an integer: decimal digits, a minus sign when negative.\<close>

fun digits_of :: "nat \<Rightarrow> pystr" where
  "digits_of n = (if n < 10 then [48 + n] else digits_of (n div 10) @ [48 + n mod 10])"

declare digits_of.simps [simp del]

definition str_of_int :: "int \<Rightarrow> pystr" where
  "str_of_int i = (if i < 0 then 45 # digits_of (nat (- i)) else digits_of (nat i))"

text \<open>\<open>str(v)\<close>, which is also what an f-string writes for \<open>{v}\<close>.\<close>

fun py_str :: "pyval \<Rightarrow> pystr" where
  "py_str (PStr s) = s"
| "py_str (PInt n) = str_of_int n"
| "py_str (PBool b) = (if b then asc ''True'' else asc ''False'')"
| "py_str PNaN = asc ''nan''"
| "py_str PNone = asc ''None''"

text \<open>\<open>str.lower\<close> (ASCII letters).\<close>

definition lower_char :: "nat \<Rightarrow> nat" where
  "lower_char c = (if 65 \<le> c \<and> c \<le> 90 then c + 32 else c)"

definition py_lower :: "pystr \<Rightarrow> pystr" where
  "py_lower s = map lower_char s"

text \<open>\<open>s.replace(a, b)\<close> for one-character \<open>a\<close>: with a one-character \<open>b\<close>, and with
  the empty \<open>b\<close>.\<close>

fun py_replace :: "nat \<Rightarrow> nat \<Rightarrow> pystr \<Rightarrow> pystr" where
  "py_replace a b [] = []"
| "py_replace a b (c # cs) = (if c = a then b else c) # py_replace a b cs"

fun py_remove :: "nat \<Rightarrow> pystr \<Rightarrow> pystr" where
  "py_remove a [] = []"
| "py_remove a (c # cs) = (if c = a then py_remove a cs else c # py_remove a cs)"

text \<open>The code points for which \<open>str.isspace\<close> holds; \<open>str.split()\<close> splits at runs of
  them.\<close>

definition is_space :: "nat \<Rightarrow> bool" where
  "is_space c \<longleftrightarrow>
     (9 \<le> c \<and> c \<le> 13) \<or> (28 \<le> c \<and> c \<le> 32) \<or> c = 133 \<or> c = 160 \<or> c = 5760 \<or>
     (8192 \<le> c \<and> c \<le> 8202) \<or> c = 8232 \<or> c = 8233 \<or> c = 8239 \<or> c = 8287 \<or> c = 12288"

text \<open>\<open>s.split()\<close>: the maximal runs of non-space characters, in order.  The first
  argument is the run being read, reversed.\<close>

fun split_from :: "pystr \<Rightarrow> pystr \<Rightarrow> pystr list" where
  "split_from cur [] = (if cur = [] then [] else [rev cur])"
| "split_from cur (c # cs) =
     (if is_space c then (if cur = [] then split_from [] cs else rev cur # split_from [] cs)
      else split_from (c # cur) cs)"

definition py_split :: "pystr \<Rightarrow> pystr list" where
  "py_split s = split_from [] s"

text \<open>\<open>v.split()[0]\<close>: only a \<open>str\<close> has \<open>split\<close>, and index 0 of an empty list raises.\<close>

definition split_first :: "pyval \<Rightarrow> error + pyval" where
  "split_first v =
     (case v of
        PStr s \<Rightarrow> (case py_split s of [] \<Rightarrow> Inl IndexError | t # _ \<Rightarrow> Inr (PStr t))
      | _ \<Rightarrow> Inl AttributeError)"

text \<open>\<open>w in s\<close> for strings: \<open>w\<close> occurs in \<open>s\<close> as a contiguous substring.\<close>

fun starts_with :: "pystr \<Rightarrow> pystr \<Rightarrow> bool" where
  "starts_with [] s = True"
| "starts_with (w # ws) [] = False"
| "starts_with (w # ws) (c # cs) = (w = c \<and> starts_with ws cs)"

fun py_in :: "pystr \<Rightarrow> pystr \<Rightarrow> bool" where
  "py_in w [] = (w = [])"
| "py_in w (c # cs) = (starts_with w (c # cs) \<or> py_in w cs)"

text \<open>
  \<open>int(s)\<close> in base 10, as CPython 3.11 computes it.  The interpreter first maps every
  code point from 127 on: a Unicode space to a blank, a Unicode decimal digit to the ASCII
  digit of its value, anything else to a question mark.  Then it skips leading blanks
  (tab, line feed, vertical tab, form feed, carriage return, space), reads an optional
  sign, then digits with single underscores allowed between two digits, then trailing
  blanks, and fails (ValueError, here \<open>None\<close>) unless this consumes the whole string.  It
  also fails when the numeral has more digits than \<open>sys.int_max_str_digits\<close>, 4300
  unless configured otherwise.

  The decimal digits of Unicode 14.0, the version of CPython 3.11, come in runs of ten
  consecutive code points with the values 0 to 9; \<open>decimal_starts\<close> lists the first code
  point of every run beyond ASCII.
\<close>

definition decimal_starts :: "nat list" where
  "decimal_starts =
     [1632, 1776, 1984, 2406, 2534, 2662, 2790, 2918, 3046, 3174, 3302, 3430, 3558, 3664,
      3792, 3872, 4160, 4240, 6112, 6160, 6470, 6608, 6784, 6800, 6992, 7088, 7232, 7248,
      42528, 43216, 43264, 43472, 43504, 43600, 44016, 65296, 66720, 68912, 69734, 69872,
      69942, 70096, 70384, 70736, 70864, 71248, 71360, 71472, 71904, 72016, 72784, 73040,
      73120, 92768, 92864, 93008, 120782, 120792, 120802, 120812, 120822, 123200, 123632,
      125264, 130032]"

definition decimal_value :: "nat \<Rightarrow> nat option" where
  "decimal_value c =
     map_option (\<lambda>s. c - s) (find (\<lambda>s. s \<le> c \<and> c < s + 10) decimal_starts)"

definition to_ascii :: "nat \<Rightarrow> nat" where
  "to_ascii c =
     (if c < 127 then c
      else if is_space c then 32
      else case decimal_value c of Some d \<Rightarrow> 48 + d | None \<Rightarrow> 63)"

definition is_blank :: "nat \<Rightarrow> bool" where
  "is_blank c \<longleftrightarrow> (9 \<le> c \<and> c \<le> 13) \<or> c = 32"

definition is_digit :: "nat \<Rightarrow> bool" where
  "is_digit c \<longleftrightarrow> 48 \<le> c \<and> c \<le> 57"

definition max_str_digits :: nat where
  "max_str_digits = 4300"

text \<open>The scan after a first digit: the value so far, the number of digits so far, and
  the unread rest.\<close>

fun scan_digits :: "int \<Rightarrow> nat \<Rightarrow> pystr \<Rightarrow> (int \<times> nat \<times> pystr) option" where
  "scan_digits acc digits [] = Some (acc, digits, [])"
| "scan_digits acc digits (c # cs) =
     (if is_digit c then scan_digits (acc * 10 + int (c - 48)) (Suc digits) cs
      else if c = 95 then
        (case cs of
           [] \<Rightarrow> None
         | d # ds \<Rightarrow>
             if is_digit d then scan_digits (acc * 10 + int (d - 48)) (Suc digits) ds
             else None)
      else Some (acc, digits, c # cs))"

definition parse_number :: "pystr \<Rightarrow> int option" where
  "parse_number u =
     (case u of
        [] \<Rightarrow> None
      | d # ds \<Rightarrow>
          if is_digit d then
            (case scan_digits (int (d - 48)) 1 ds of
               None \<Rightarrow> None
             | Some (n, digits, rest) \<Rightarrow>
                 if digits > max_str_digits then None
                 else if list_all is_blank rest then Some n
                 else None)
          else None)"

definition parse_signed :: "pystr \<Rightarrow> int option" where
  "parse_signed t =
     (case t of
        [] \<Rightarrow> None
      | c # r \<Rightarrow>
          if c = 43 then parse_number r
          else if c = 45 then map_option uminus (parse_number r)
          else parse_number t)"

definition py_int :: "pystr \<Rightarrow> int option" where
  "py_int s = parse_signed (dropWhile is_blank (map to_ascii s))"

text \<open>\<open>d.get(k, default)\<close> on a dictionary with string keys.\<close>

definition dict_get :: "(pystr \<rightharpoonup> 'v) \<Rightarrow> pystr \<Rightarrow> 'v \<Rightarrow> 'v" where
  "dict_get d k dflt = (case d k of None \<Rightarrow> dflt | Some v \<Rightarrow> v)"

text \<open>\<open>d[k]\<close>: a missing key raises.\<close>

definition dict_item :: "(pystr \<rightharpoonup> 'v) \<Rightarrow> pystr \<Rightarrow> error + 'v" where
  "dict_item d k = (case d k of None \<Rightarrow> Inl KeyError | Some v \<Rightarrow> Inr v)"

text \<open>\<open>d.get(key, default)\<close> where the dictionary has string keys and the key is any
  scalar: a key that is not a string equals none of the dictionary's keys.\<close>

definition dict_get_val :: "(pystr \<rightharpoonup> 'v) \<Rightarrow> pyval \<Rightarrow> 'v \<Rightarrow> 'v" where
  "dict_get_val d key dflt = (case key of PStr k \<Rightarrow> dict_get d k dflt | _ \<Rightarrow> dflt)"

text \<open>\<open>xs[0]\<close>.\<close>

definition index0 :: "'a list \<Rightarrow> error + 'a" where
  "index0 xs = (case xs of [] \<Rightarrow> Inl IndexError | x # _ \<Rightarrow> Inr x)"

section \<open>Configuration\<close>

text \<open>A profile; the source's key \<open>values\<close> is the field \<open>values_list\<close>.\<close>

record profile =
  pain_points :: "pystr list"
  values_list :: "pystr list"
  tone :: pystr

definition COMPANY_DNA_PROFILES :: "pystr \<rightharpoonup> profile" where
  "COMPANY_DNA_PROFILES = map_of
     [(asc ''High-Growth Startup'',
        \<lparr>pain_points = [asc ''scaling quickly'', asc ''resource constraints'',
                         asc ''proving product-market fit''],
         values_list = [asc ''speed'', asc ''innovation'', asc ''disruption''],
         tone = asc ''energetic and bold''\<rparr>),
      (asc ''Enterprise'',
        \<lparr>pain_points = [asc ''legacy systems'', asc ''cross-team alignment'',
                         asc ''compliance requirements''],
         values_list = [asc ''stability'', asc ''proven solutions'', asc ''risk mitigation''],
         tone = asc ''professional and strategic''\<rparr>),
      (asc ''Mid-Market'',
        \<lparr>pain_points = [asc ''growing pains'', asc ''process optimization'',
                         asc ''competitive pressure''],
         values_list = [asc ''efficiency'', asc ''growth'', asc ''partnership''],
         tone = asc ''balanced and consultative''\<rparr>),
      (asc ''Agency/Consultancy'',
        \<lparr>pain_points = [asc ''client delivery'', asc ''billable utilization'',
                         asc ''differentiation''],
         values_list = [asc ''expertise'', asc ''client success'', asc ''innovation''],
         tone = asc ''collaborative and expert''\<rparr>)]"

section \<open>Classification\<close>

text \<open>A row, as the functions below receive it: a dictionary from column names to
  scalars.\<close>

type_synonym row = "pystr \<rightharpoonup> pyval"

text \<open>
  \<open>detect_company_dna\<close>.  The bare \<open>except\<close> turns a failed \<open>int(...)\<close> into falling
  through to the keyword rules.  \<open>title\<close> is computed and not used, as in the source.
\<close>

definition detect_company_dna :: "row \<Rightarrow> pystr" where
  "detect_company_dna row =
     (let company = py_lower (py_str (dict_get row (asc ''company'') (PStr [])));
          title = py_lower (py_str (dict_get row (asc ''title'') (PStr [])));
          employees = dict_get row (asc ''employees'')
                        (dict_get row (asc ''company_size'') (PStr []))
      in case (if py_truthy employees
               then py_int (py_remove 43 (py_remove 44 (py_str employees)))
               else None) of
           Some emp_count \<Rightarrow>
             if emp_count < 50 then asc ''High-Growth Startup''
             else if emp_count < 500 then asc ''Mid-Market''
             else asc ''Enterprise''
         | None \<Rightarrow>
             if list_ex (\<lambda>word. py_in word company)
                  [asc ''consulting'', asc ''agency'', asc ''partners'', asc ''group'']
             then asc ''Agency/Consultancy''
             else if list_ex (\<lambda>word. py_in word company)
                  [asc ''inc'', asc ''corp'', asc ''global'', asc ''international'']
             then asc ''Enterprise''
             else asc ''Mid-Market'')"

definition assign_priority :: "row \<Rightarrow> pystr" where
  "assign_priority row =
     (let title = py_lower (py_str (dict_get row (asc ''title'') (PStr [])))
      in if list_ex (\<lambda>level. py_in level title)
              [asc ''ceo'', asc ''cro'', asc ''cmo'', asc ''coo'', asc ''chief'', asc ''vp'',
               asc ''vice president'', asc ''head of'']
         then asc ''P1 - Hot''
         else if list_ex (\<lambda>level. py_in level title)
              [asc ''director'', asc ''senior'', asc ''manager'', asc ''lead'']
         then asc ''P2 - Warm''
         else asc ''P3 - Nurture'')"

section \<open>Script generation\<close>

text \<open>
  \<open>row.get('first_name', row.get('name', 'there').split()[0])\<close>: Python evaluates the
  default before the lookup, so the \<open>split\<close> and the index run, and can raise, whether
  or not the row has a first name.
\<close>

definition first_name_of :: "row \<Rightarrow> error + pyval" where
  "first_name_of row =
     ebind (split_first (dict_get row (asc ''name'') (PStr (asc ''there''))))
       (\<lambda>dflt. Inr (dict_get row (asc ''first_name'') dflt))"

definition subjects :: "pystr \<Rightarrow> pystr \<Rightarrow> pystr \<Rightarrow> (pystr \<rightharpoonup> pystr list)" where
  "subjects first_name company value_prop = map_of
     [(asc ''High-Growth Startup'',
        [first_name @ asc '' - scaling '' @ company @ [39] @ asc ''s revenue engine?'',
         asc ''Quick win for '' @ company @ [39] @ asc ''s growth'',
         first_name @ asc '', '' @ company @ asc '' + '' @ value_prop @ asc ''?'']),
      (asc ''Enterprise'',
        [asc ''Strategic alignment: '' @ company @ asc '' revenue operations'',
         first_name @ asc '' - optimizing '' @ company @ [39] @ asc ''s GTM execution'',
         asc ''Enterprise '' @ value_prop @ asc '' for '' @ company]),
      (asc ''Mid-Market'',
        [first_name @ asc '' - '' @ company @ [39] @ asc ''s next growth lever'',
         asc ''Helping '' @ company @ asc '' scale smarter'',
         first_name @ asc '', quick question about '' @ company]),
      (asc ''Agency/Consultancy'',
        [asc ''Partnership opportunity: '' @ company,
         first_name @ asc '' - elevating '' @ company @ [39] @ asc ''s client outcomes'',
         asc ''For '' @ company @ asc '': '' @ value_prop])]"

definition generate_email_subject :: "row \<Rightarrow> pyval \<Rightarrow> pystr \<Rightarrow> error + pystr" where
  "generate_email_subject row company_dna value_prop =
     ebind (first_name_of row) (\<lambda>first_name.
       let company = dict_get row (asc ''company'') (PStr (asc ''your team''));
           subj = subjects (py_str first_name) (py_str company) value_prop
       in ebind (dict_item subj (asc ''Mid-Market'')) (\<lambda>dflt.
            index0 (dict_get_val subj company_dna dflt)))"

text \<open>The four body templates, with the interpolated strings as arguments.\<close>

definition templates ::
  "pystr \<Rightarrow> pystr \<Rightarrow> pystr \<Rightarrow> pystr \<Rightarrow> pystr \<Rightarrow> (pystr \<rightharpoonup> pystr)" where
  "templates first_name company pain value_prop sender_name = map_of
     [(asc ''High-Growth Startup'',
        asc ''Hi '' @ first_name @ asc '','' @ [nl, nl] @
        asc ''Saw '' @ company @ asc '' is making moves '' @ [emdash] @
        asc '' congrats on the momentum.'' @ [nl, nl] @
        asc ''I've been helping fast-growing teams like yours solve '' @ pain @
        asc '' through '' @ value_prop @
        asc ''. The results: faster pipeline, cleaner data, and sales teams that actually trust their CRM.'' @
        [nl, nl] @
        asc ''Would a 15-minute call this week make sense? Happy to share a quick framework that's worked for similar companies.'' @
        [nl, nl] @ asc ''Best,'' @ [nl] @ sender_name),
      (asc ''Enterprise'',
        asc ''Hi '' @ first_name @ asc '','' @ [nl, nl] @
        asc ''I've been following '' @ company @
        [39] @ asc ''s trajectory and wanted to reach out with a relevant observation.'' @ [nl, nl] @
        asc ''Many enterprise revenue leaders I work with are navigating '' @ pain @
        asc '' while trying to drive predictable growth. I specialize in '' @ value_prop @
        asc '' '' @ [emdash] @
        asc '' helping teams like yours turn operational complexity into competitive advantage.'' @
        [nl, nl] @
        asc ''Would you be open to a brief conversation to explore alignment?'' @
        [nl, nl] @ asc ''Best regards,'' @ [nl] @ sender_name),
      (asc ''Mid-Market'',
        asc ''Hi '' @ first_name @ asc '','' @ [nl, nl] @
        asc ''Quick note '' @ [emdash] @ asc '' I work with mid-market companies like '' @
        company @ asc '' on '' @ value_prop @ asc ''.'' @ [nl, nl] @
        asc ''The common challenge I see: '' @ pain @
        asc ''. The solution doesn't have to be complex.'' @ [nl, nl] @
        asc ''If this resonates, I'd love to share a framework that's helped similar teams. 15 minutes '' @
        [emdash] @ asc '' no pitch, just value.'' @
        [nl, nl] @ asc ''Best,'' @ [nl] @ sender_name),
      (asc ''Agency/Consultancy'',
        asc ''Hi '' @ first_name @ asc '','' @ [nl, nl] @
        asc ''I came across '' @ company @ asc '' and was impressed by your work.'' @ [nl, nl] @
        asc ''I partner with agencies and consultancies on '' @ value_prop @ asc '' '' @
        [emdash] @ asc '' specifically helping with '' @ pain @
        asc ''. It's often the difference between good delivery and exceptional client outcomes.'' @
        [nl, nl] @
        asc ''Would you be open to a quick conversation about how we might collaborate?'' @
        [nl, nl] @ asc ''Best,'' @ [nl] @ sender_name)]"

text \<open>\<open>COMPANY_DNA_PROFILES.get(company_dna, COMPANY_DNA_PROFILES["Mid-Market"])\<close>
  and then \<open>profile["pain_points"][0]\<close>.\<close>

definition pain_of :: "pyval \<Rightarrow> error + pystr" where
  "pain_of company_dna =
     ebind (dict_item COMPANY_DNA_PROFILES (asc ''Mid-Market'')) (\<lambda>dflt.
       index0 (pain_points (dict_get_val COMPANY_DNA_PROFILES company_dna dflt)))"

text \<open>\<open>generate_email_body\<close>; \<open>title\<close> is read and not used, as in the source.\<close>

definition generate_email_body :: "row \<Rightarrow> pyval \<Rightarrow> pystr \<Rightarrow> pystr \<Rightarrow> error + pystr" where
  "generate_email_body row company_dna value_prop sender_name =
     ebind (first_name_of row) (\<lambda>first_name.
       let company = dict_get row (asc ''company'') (PStr (asc ''your company''));
           title = dict_get row (asc ''title'') (PStr (asc ''your role''))
       in ebind (pain_of company_dna) (\<lambda>pain.
            let tmpl = templates (py_str first_name) (py_str company) pain value_prop sender_name
            in ebind (dict_item tmpl (asc ''Mid-Market'')) (\<lambda>dflt.
                 Inr (dict_get_val tmpl company_dna dflt))))"

definition messages :: "pystr \<Rightarrow> pystr \<Rightarrow> pystr \<Rightarrow> (pystr \<rightharpoonup> pystr)" where
  "messages first_name company value_prop = map_of
     [(asc ''High-Growth Startup'',
        asc ''Hi '' @ first_name @ asc '' '' @ [emdash] @ asc '' impressed by '' @ company @
        [39] @ asc ''s growth. I work on '' @ value_prop @
        asc '' for scaling teams. Would love to connect and share ideas.''),
      (asc ''Enterprise'',
        asc ''Hi '' @ first_name @ asc '' '' @ [emdash] @
        asc '' I help enterprise revenue teams with '' @ value_prop @
        asc ''. Your work at '' @ company @ asc '' caught my attention. Let's connect.''),
      (asc ''Mid-Market'',
        asc ''Hi '' @ first_name @ asc '' '' @ [emdash] @ asc '' '' @ company @
        asc '' looks like a great fit for some ideas I have on '' @ value_prop @
        asc ''. Would love to connect.''),
      (asc ''Agency/Consultancy'',
        asc ''Hi '' @ first_name @ asc '' '' @ [emdash] @
        asc '' I partner with agencies on '' @ value_prop @ asc ''. '' @ company @
        [39] @ asc ''s approach resonates. Let's connect?'')]"

text \<open>\<open>msg[:295] + "..." if len(msg) > 300 else msg\<close>.\<close>

definition truncate_msg :: "pystr \<Rightarrow> pystr" where
  "truncate_msg msg = (if length msg > 300 then take 295 msg @ asc ''...'' else msg)"

definition generate_linkedin_message :: "row \<Rightarrow> pyval \<Rightarrow> pystr \<Rightarrow> error + pystr" where
  "generate_linkedin_message row company_dna value_prop =
     ebind (first_name_of row) (\<lambda>first_name.
       let company = dict_get row (asc ''company'') (PStr (asc ''your company''));
           msgs = messages (py_str first_name) (py_str company) value_prop
       in ebind (dict_item msgs (asc ''Mid-Market'')) (\<lambda>dflt.
            Inr (truncate_msg (dict_get_val msgs company_dna dflt))))"

section \<open>The batch runner\<close>

text \<open>
  A row of the input table, as \<open>row.items()\<close> yields it: the columns in order, each
  with its name and its value.  The dictionary comprehension
  \<open>{k.lower().replace(' ', '_'): v for k, v in row.items()}\<close> inserts them in that order,
  so of two columns with the same normalised name the later one stays.
\<close>

type_synonym raw_record = "(pystr \<times> pyval) list"

definition norm_key :: "pystr \<Rightarrow> pystr" where
  "norm_key k = py_replace 32 95 (py_lower k)"

fun row_dict_from :: "row \<Rightarrow> raw_record \<Rightarrow> row" where
  "row_dict_from d [] = d"
| "row_dict_from d ((k, v) # items) = row_dict_from (d(norm_key k \<mapsto> v)) items"

definition row_dict :: "raw_record \<Rightarrow> row" where
  "row_dict items = row_dict_from Map.empty items"

text \<open>
  The default of the first name,
  \<open>row_dict.get('name', 'there').split()[0] if row_dict.get('name') else 'there'\<close>,
  which Python evaluates before the lookups of \<open>first_name\<close> and \<open>firstname\<close>.
\<close>

definition name_default :: "row \<Rightarrow> error + pyval" where
  "name_default rd =
     (if (case rd (asc ''name'') of None \<Rightarrow> False | Some v \<Rightarrow> py_truthy v)
      then split_first (dict_get rd (asc ''name'') (PStr (asc ''there'')))
      else Inr (PStr (asc ''there'')))"

definition lead_data :: "row \<Rightarrow> error + row" where
  "lead_data rd =
     ebind (name_default rd) (\<lambda>nd. Inr
       [asc ''first_name'' \<mapsto>
          dict_get rd (asc ''first_name'') (dict_get rd (asc ''firstname'') nd),
        asc ''last_name'' \<mapsto>
          dict_get rd (asc ''last_name'') (dict_get rd (asc ''lastname'') (PStr [])),
        asc ''company'' \<mapsto>
          dict_get rd (asc ''company'') (dict_get rd (asc ''company_name'')
            (dict_get rd (asc ''organization'') (PStr (asc ''Unknown'')))),
        asc ''title'' \<mapsto>
          dict_get rd (asc ''title'') (dict_get rd (asc ''job_title'')
            (dict_get rd (asc ''position'') (PStr []))),
        asc ''email'' \<mapsto>
          dict_get rd (asc ''email'') (dict_get rd (asc ''email_address'') (PStr [])),
        asc ''linkedin'' \<mapsto>
          dict_get rd (asc ''linkedin'') (dict_get rd (asc ''linkedin_url'')
            (dict_get rd (asc ''profile_url'') (PStr []))),
        asc ''employees'' \<mapsto>
          dict_get rd (asc ''employees'') (dict_get rd (asc ''company_size'')
            (dict_get rd (asc ''size'') (PStr [])))])"

text \<open>The Normalizer: lines 203 to 214 of \<open>process_leads\<close>.\<close>

definition normalize_row :: "raw_record \<Rightarrow> error + row" where
  "normalize_row items = lead_data (row_dict items)"

record result_row =
  First_Name :: pyval
  Last_Name :: pyval
  Company :: pyval
  Title :: pyval
  Email :: pyval
  LinkedIn :: pyval
  Priority :: pystr
  Company_DNA :: pyval
  Email_Subject :: pystr
  Email_Body :: pystr
  LinkedIn_Message :: pystr

text \<open>The archetype of a row: line 217.\<close>

definition company_dna_of :: "bool \<Rightarrow> row \<Rightarrow> row \<Rightarrow> pyval" where
  "company_dna_of auto_detect_dna rd ld =
     (if auto_detect_dna then PStr (detect_company_dna ld)
      else dict_get rd (asc ''company_dna'') (PStr (asc ''Mid-Market'')))"

text \<open>The body of the loop of \<open>process_leads\<close>: one input row to one result row.\<close>

definition process_row :: "raw_record \<Rightarrow> pystr \<Rightarrow> pystr \<Rightarrow> bool \<Rightarrow> error + result_row" where
  "process_row items value_prop sender_name auto_detect_dna =
     (let rd = row_dict items in
      ebind (lead_data rd) (\<lambda>ld.
        let company_dna = company_dna_of auto_detect_dna rd ld;
            priority = assign_priority ld
        in
        ebind (dict_item ld (asc ''first_name'')) (\<lambda>r_first.
        ebind (dict_item ld (asc ''last_name'')) (\<lambda>r_last.
        ebind (dict_item ld (asc ''company'')) (\<lambda>r_company.
        ebind (dict_item ld (asc ''title'')) (\<lambda>r_title.
        ebind (dict_item ld (asc ''email'')) (\<lambda>r_email.
        ebind (dict_item ld (asc ''linkedin'')) (\<lambda>r_linkedin.
        ebind (generate_email_subject ld company_dna value_prop) (\<lambda>subject.
        ebind (generate_email_body ld company_dna value_prop sender_name) (\<lambda>body.
        ebind (generate_linkedin_message ld company_dna value_prop) (\<lambda>message.
          Inr \<lparr>First_Name = r_first, Last_Name = r_last, Company = r_company,
               Title = r_title, Email = r_email, LinkedIn = r_linkedin,
               Priority = priority, Company_DNA = company_dna,
               Email_Subject = subject, Email_Body = body,
               LinkedIn_Message = message\<rparr>)))))))))))"

text \<open>The loop, with the list \<open>results\<close> that each iteration appends to; an exception
  in one row ends the whole call.\<close>

fun process_leads_loop ::
  "raw_record list \<Rightarrow> pystr \<Rightarrow> pystr \<Rightarrow> bool \<Rightarrow> result_row list \<Rightarrow> error + result_row list" where
  "process_leads_loop [] value_prop sender_name auto_detect_dna results = Inr results"
| "process_leads_loop (items # rest) value_prop sender_name auto_detect_dna results =
     ebind (process_row items value_prop sender_name auto_detect_dna) (\<lambda>result.
       process_leads_loop rest value_prop sender_name auto_detect_dna (results @ [result]))"

definition process_leads ::
  "raw_record list \<Rightarrow> pystr \<Rightarrow> pystr \<Rightarrow> bool \<Rightarrow> error + result_row list" where
  "process_leads df value_prop sender_name auto_detect_dna =
     process_leads_loop df value_prop sender_name auto_detect_dna []"

section \<open>What the specification calls a case-insensitive substring match\<close>

text \<open>
  The specification's words: a keyword matches a text, ignoring case, when some
  contiguous piece of the text equals the keyword up to the case of its letters.  The
  source computes it as \<open>keyword in text.lower()\<close>, with keywords written in lower case.
\<close>

definition contains_ci :: "pystr \<Rightarrow> pystr \<Rightarrow> bool" where
  "contains_ci w t \<longleftrightarrow> (\<exists>ps u ss. t = ps @ u @ ss \<and> py_lower u = py_lower w)"

text \<open>The texts that the classifiers read: \<open>str(row.get('title', ''))\<close> and
  \<open>str(row.get('company', ''))\<close>, before lower-casing.\<close>

definition title_text :: "row \<Rightarrow> pystr" where
  "title_text row = py_str (dict_get row (asc ''title'') (PStr []))"

definition company_text :: "row \<Rightarrow> pystr" where
  "company_text row = py_str (dict_get row (asc ''company'') (PStr []))"

section \<open>The parts of archetype detection\<close>

text \<open>The employees value that \<open>detect_company_dna\<close> reads (line 57), the count that
  its size rule obtains from it (lines 60 to 62, \<open>None\<close> when the rule is skipped or the
  conversion fails), and its two rule sets (lines 63 to 68 and 73 to 78).\<close>

definition employees_value :: "row \<Rightarrow> pyval" where
  "employees_value row =
     dict_get row (asc ''employees'') (dict_get row (asc ''company_size'') (PStr []))"

definition employee_count :: "row \<Rightarrow> int option" where
  "employee_count row =
     (if py_truthy (employees_value row)
      then py_int (py_remove 43 (py_remove 44 (py_str (employees_value row))))
      else None)"

definition size_dna :: "int \<Rightarrow> pystr" where
  "size_dna emp_count =
     (if emp_count < 50 then asc ''High-Growth Startup''
      else if emp_count < 500 then asc ''Mid-Market''
      else asc ''Enterprise'')"

definition keyword_dna :: "pystr \<Rightarrow> pystr" where
  "keyword_dna company =
     (if list_ex (\<lambda>word. py_in word company)
           [asc ''consulting'', asc ''agency'', asc ''partners'', asc ''group'']
      then asc ''Agency/Consultancy''
      else if list_ex (\<lambda>word. py_in word company)
           [asc ''inc'', asc ''corp'', asc ''global'', asc ''international'']
      then asc ''Enterprise''
      else asc ''Mid-Market'')"

text \<open>
  The specification's words for the size rule: the employees text "parses as an integer
  after stripping commas and trailing +".  \<open>py_rstrip\<close> is \<open>str.rstrip\<close> for one
  character.
\<close>

definition py_rstrip :: "nat \<Rightarrow> pystr \<Rightarrow> pystr" where
  "py_rstrip a s = rev (dropWhile (\<lambda>c. c = a) (rev s))"

definition spec_employee_count :: "pystr \<Rightarrow> int option" where
  "spec_employee_count s = py_int (py_rstrip 43 (py_remove 44 s))"

section \<open>The rendered connection message\<close>

text \<open>The template that \<open>generate_linkedin_message\<close> selects for the archetype,
  rendered with a given first name, before the length rule: \<open>msg\<close> of line 194.\<close>

definition rendered_message :: "pyval \<Rightarrow> row \<Rightarrow> pyval \<Rightarrow> pystr \<Rightarrow> pystr" where
  "rendered_message first_name row company_dna value_prop =
     (let company = dict_get row (asc ''company'') (PStr (asc ''your company''));
          msgs = messages (py_str first_name) (py_str company) value_prop
      in dict_get_val msgs company_dna (dict_get msgs (asc ''Mid-Market'') []))"

section \<open>What the specification calls a fallback chain\<close>

text \<open>
  The specification's words: a canonical field is the value of the first present key of
  its list of synonyms, and a fixed default when none is present.
\<close>

fun first_present :: "row \<Rightarrow> pystr list \<Rightarrow> pyval \<Rightarrow> pyval" where
  "first_present rd [] dflt = dflt"
| "first_present rd (k # ks) dflt =
     (case rd k of None \<Rightarrow> first_present rd ks dflt | Some v \<Rightarrow> v)"

text \<open>The values of the \<open>name\<close> column that have a first token or need none: no such
  column, a falsy value, or a string with a character that is not white space.\<close>

definition name_usable :: "pyval option \<Rightarrow> bool" where
  "name_usable n =
     (case n of
        None \<Rightarrow> True
      | Some v \<Rightarrow>
          \<not> py_truthy v \<or> (case v of PStr s \<Rightarrow> list_ex (\<lambda>c. \<not> is_space c) s | _ \<Rightarrow> False))"

text \<open>A field of the Normalizer's result, \<open>None\<close> when the Normalizer raised.\<close>

definition lead_field :: "error + row \<Rightarrow> pystr \<Rightarrow> pyval option" where
  "lead_field r k = (case r of Inl e \<Rightarrow> None | Inr ld \<Rightarrow> ld k)"

section \<open>Substrings\<close>

lemma starts_with_iff: "starts_with w s \<longleftrightarrow> (\<exists>ss. s = w @ ss)"
  by (induction w s rule: starts_with.induct) auto

lemma py_in_iff: "py_in w s \<longleftrightarrow> (\<exists>ps ss. s = ps @ w @ ss)"
proof (induction s)
  case Nil
  then show ?case by auto
next
  case (Cons c cs)
  show ?case
  proof
    assume "py_in w (c # cs)"
    then consider "starts_with w (c # cs)" | "py_in w cs" by auto
    then show "\<exists>ps ss. c # cs = ps @ w @ ss"
    proof cases
      case 1
      then obtain ss where "c # cs = w @ ss" by (auto simp: starts_with_iff)
      then have "c # cs = [] @ w @ ss" by simp
      then show ?thesis by blast
    next
      case 2
      then obtain ps ss where "cs = ps @ w @ ss" using Cons.IH by auto
      then have "c # cs = (c # ps) @ w @ ss" by simp
      then show ?thesis by blast
    qed
  next
    assume "\<exists>ps ss. c # cs = ps @ w @ ss"
    then obtain ps ss where eq: "c # cs = ps @ w @ ss" by auto
    show "py_in w (c # cs)"
    proof (cases ps)
      case Nil
      then have "starts_with w (c # cs)" using eq by (auto simp: starts_with_iff)
      then show ?thesis by simp
    next
      case (Cons p ps')
      then have "cs = ps' @ w @ ss" using eq by simp
      then have "py_in w cs" using Cons.IH by auto
      then show ?thesis by simp
    qed
  qed
qed

lemma map_eq_mid:
  "map f t = ps' @ w @ ss' \<Longrightarrow> \<exists>ps u ss. t = ps @ u @ ss \<and> map f u = w"
proof -
  assume a: "map f t = ps' @ w @ ss'"
  let ?ps = "take (length ps') t"
  let ?u = "take (length w) (drop (length ps') t)"
  let ?ss = "drop (length w) (drop (length ps') t)"
  have "t = ?ps @ ?u @ ?ss" by (simp only: append_take_drop_id)
  moreover have "map f ?u = take (length w) (drop (length ps') (map f t))"
    by (simp add: take_map drop_map)
  then have "map f ?u = w" using a by simp
  ultimately show ?thesis by blast
qed

lemma contains_ci_code: "contains_ci w t \<longleftrightarrow> py_in (py_lower w) (py_lower t)"
proof
  assume "contains_ci w t"
  then obtain ps u ss where "t = ps @ u @ ss" "py_lower u = py_lower w"
    by (auto simp: contains_ci_def)
  then have "py_lower t = py_lower ps @ py_lower w @ py_lower ss"
    by (simp add: py_lower_def)
  then show "py_in (py_lower w) (py_lower t)" unfolding py_in_iff by blast
next
  assume "py_in (py_lower w) (py_lower t)"
  then obtain ps' ss' where "map lower_char t = ps' @ py_lower w @ ss'"
    unfolding py_in_iff py_lower_def by auto
  from map_eq_mid[OF this] show "contains_ci w t"
    unfolding contains_ci_def py_lower_def by blast
qed


section \<open>Priority detection\<close>

lemma assign_priority_unfold:
  "assign_priority row =
     (if list_ex (\<lambda>level. py_in level (py_lower (title_text row)))
           [asc ''ceo'', asc ''cro'', asc ''cmo'', asc ''coo'', asc ''chief'', asc ''vp'',
            asc ''vice president'', asc ''head of'']
      then asc ''P1 - Hot''
      else if list_ex (\<lambda>level. py_in level (py_lower (title_text row)))
           [asc ''director'', asc ''senior'', asc ''manager'', asc ''lead'']
      then asc ''P2 - Warm''
      else asc ''P3 - Nurture'')"
  by (simp only: assign_priority_def title_text_def Let_def)

lemma lower_keywords:
  "py_lower (asc ''ceo'') = asc ''ceo''" "py_lower (asc ''cro'') = asc ''cro''"
  "py_lower (asc ''cmo'') = asc ''cmo''" "py_lower (asc ''coo'') = asc ''coo''"
  "py_lower (asc ''chief'') = asc ''chief''" "py_lower (asc ''vp'') = asc ''vp''"
  "py_lower (asc ''vice president'') = asc ''vice president''"
  "py_lower (asc ''head of'') = asc ''head of''"
  "py_lower (asc ''director'') = asc ''director''"
  "py_lower (asc ''senior'') = asc ''senior''"
  "py_lower (asc ''manager'') = asc ''manager''"
  "py_lower (asc ''lead'') = asc ''lead''"
  "py_lower (asc ''consulting'') = asc ''consulting''"
  "py_lower (asc ''agency'') = asc ''agency''"
  "py_lower (asc ''partners'') = asc ''partners''"
  "py_lower (asc ''group'') = asc ''group''"
  "py_lower (asc ''inc'') = asc ''inc''"
  "py_lower (asc ''corp'') = asc ''corp''"
  "py_lower (asc ''global'') = asc ''global''"
  "py_lower (asc ''international'') = asc ''international''"
  by (simp_all add: py_lower_def asc_def lower_char_def)

lemma assign_priority_spec:
  "assign_priority row =
     (if \<exists>kw \<in> set [asc ''ceo'', asc ''cro'', asc ''cmo'', asc ''coo'', asc ''chief'',
                     asc ''vp'', asc ''vice president'', asc ''head of''].
           contains_ci kw (title_text row)
      then asc ''P1 - Hot''
      else if \<exists>kw \<in> set [asc ''director'', asc ''senior'', asc ''manager'', asc ''lead''].
           contains_ci kw (title_text row)
      then asc ''P2 - Warm''
      else asc ''P3 - Nurture'')"
  unfolding assign_priority_unfold
  by (simp only: list_ex_iff list.set ball_simps bex_simps contains_ci_code lower_keywords
        insert_iff empty_iff bex_Un bex_triv_one_point1 bex_triv_one_point2 simp_thms
        bex_simps bex_empty)

lemma account_executive_no_keyword:
  "\<not> list_ex (\<lambda>level. py_in level (py_lower (asc ''Account Executive'')))
       [asc ''ceo'', asc ''cro'', asc ''cmo'', asc ''coo'', asc ''chief'', asc ''vp'',
        asc ''vice president'', asc ''head of'']"
  "\<not> list_ex (\<lambda>level. py_in level (py_lower (asc ''Account Executive'')))
       [asc ''director'', asc ''senior'', asc ''manager'', asc ''lead'']"
  by (simp_all add: py_lower_def asc_def lower_char_def)

text \<open>
  C4.  Priority detection matches the title, ignoring case, against the P1 keywords
  first, then the P2 keywords, and defaults to P3.  So a title that contains "vp" is
  "P1 - Hot" also when it contains "director", and the title "Account Executive", which
  contains no keyword of either list, is "P3 - Nurture".
\<close>

theorem assign_priority_tiers:
  "assign_priority row =
     (if \<exists>kw \<in> set [asc ''ceo'', asc ''cro'', asc ''cmo'', asc ''coo'', asc ''chief'',
                     asc ''vp'', asc ''vice president'', asc ''head of''].
           contains_ci kw (title_text row)
      then asc ''P1 - Hot''
      else if \<exists>kw \<in> set [asc ''director'', asc ''senior'', asc ''manager'', asc ''lead''].
           contains_ci kw (title_text row)
      then asc ''P2 - Warm''
      else asc ''P3 - Nurture'')
   \<and> (contains_ci (asc ''vp'') (title_text row) \<and>
        contains_ci (asc ''director'') (title_text row) \<longrightarrow>
        assign_priority row = asc ''P1 - Hot'')
   \<and> (title_text row = asc ''Account Executive'' \<longrightarrow>
        assign_priority row = asc ''P3 - Nurture'')"
proof (intro conjI impI)
  show "assign_priority row =
     (if \<exists>kw \<in> set [asc ''ceo'', asc ''cro'', asc ''cmo'', asc ''coo'', asc ''chief'',
                     asc ''vp'', asc ''vice president'', asc ''head of''].
           contains_ci kw (title_text row)
      then asc ''P1 - Hot''
      else if \<exists>kw \<in> set [asc ''director'', asc ''senior'', asc ''manager'', asc ''lead''].
           contains_ci kw (title_text row)
      then asc ''P2 - Warm''
      else asc ''P3 - Nurture'')"
    by (rule assign_priority_spec)
next
  assume "contains_ci (asc ''vp'') (title_text row) \<and>
          contains_ci (asc ''director'') (title_text row)"
  then have "\<exists>kw \<in> set [asc ''ceo'', asc ''cro'', asc ''cmo'', asc ''coo'', asc ''chief'',
                     asc ''vp'', asc ''vice president'', asc ''head of''].
           contains_ci kw (title_text row)"
    by simp
  then show "assign_priority row = asc ''P1 - Hot''"
    by (simp only: assign_priority_spec if_True)
next
  assume "title_text row = asc ''Account Executive''"
  then show "assign_priority row = asc ''P3 - Nurture''"
    unfolding assign_priority_unfold
    by (simp only: account_executive_no_keyword if_False)
qed

theorem assign_priority_tiers_witness:
  "contains_ci (asc ''vp'') (title_text [asc ''title'' \<mapsto> PStr (asc ''VP, Director of Sales'')])
   \<and> contains_ci (asc ''director'')
        (title_text [asc ''title'' \<mapsto> PStr (asc ''VP, Director of Sales'')])
   \<and> assign_priority [asc ''title'' \<mapsto> PStr (asc ''VP, Director of Sales'')] = asc ''P1 - Hot''
   \<and> title_text [asc ''title'' \<mapsto> PStr (asc ''Account Executive'')] = asc ''Account Executive''
   \<and> assign_priority [asc ''title'' \<mapsto> PStr (asc ''Account Executive'')] = asc ''P3 - Nurture''"
proof -
  have t1: "title_text [asc ''title'' \<mapsto> PStr (asc ''VP, Director of Sales'')]
            = asc ''VP, Director of Sales''"
    by (simp add: title_text_def dict_get_def)
  have t2: "title_text [asc ''title'' \<mapsto> PStr (asc ''Account Executive'')]
            = asc ''Account Executive''"
    by (simp add: title_text_def dict_get_def)
  have c1: "contains_ci (asc ''vp'') (asc ''VP, Director of Sales'')"
    by (simp add: contains_ci_code py_lower_def asc_def lower_char_def)
  have c2: "contains_ci (asc ''director'') (asc ''VP, Director of Sales'')"
    by (simp add: contains_ci_code py_lower_def asc_def lower_char_def)
  have p1: "assign_priority [asc ''title'' \<mapsto> PStr (asc ''VP, Director of Sales'')]
            = asc ''P1 - Hot''"
    using assign_priority_tiers [of "[asc ''title'' \<mapsto> PStr (asc ''VP, Director of Sales'')]"]
          c1 c2
    unfolding t1 by blast
  have p2: "assign_priority [asc ''title'' \<mapsto> PStr (asc ''Account Executive'')]
            = asc ''P3 - Nurture''"
    using assign_priority_tiers [of "[asc ''title'' \<mapsto> PStr (asc ''Account Executive'')]"]
    unfolding t2 by blast
  show ?thesis
    using p1 p2 c1 c2 unfolding t1 t2 by blast
qed

section \<open>Reading an integer\<close>

lemmas int_eval = py_int_def to_ascii_def is_blank_def parse_signed_def parse_number_def
  is_digit_def max_str_digits_def asc_def

lemma py_remove_filter: "py_remove a s = filter (\<lambda>c. c \<noteq> a) s"
  by (induction s) auto

lemma scan_digits_no_plus:
  "scan_digits acc k cs = Some (n, m, rest) \<Longrightarrow> list_all is_blank rest \<Longrightarrow> 43 \<notin> set cs"
proof (induction acc k cs rule: scan_digits.induct)
  case (1 acc k)
  then show ?case by simp
next
  case (2 acc k c cs)
  show ?case
  proof (cases "is_digit c")
    case True
    then have "c \<noteq> 43" by (auto simp: is_digit_def)
    moreover have "43 \<notin> set cs" using "2.IH"(1)[OF True] "2.prems" True by simp
    ultimately show ?thesis by simp
  next
    case nd: False
    show ?thesis
    proof (cases "c = 95")
      case True
      then obtain d ds where cs: "cs = d # ds" and d: "is_digit d"
        using "2.prems"(1) nd by (auto split: list.splits if_splits)
      then have "scan_digits (acc * 10 + int (d - 48)) (Suc k) ds = Some (n, m, rest)"
        using "2.prems"(1) nd True by simp
      then have "43 \<notin> set ds" using "2.IH"(2)[OF nd True cs d] "2.prems"(2) by simp
      moreover have "d \<noteq> 43" using d by (auto simp: is_digit_def)
      ultimately show ?thesis using True cs by simp
    next
      case False
      then have "rest = c # cs" using "2.prems"(1) nd by simp
      then have "list_all is_blank (c # cs)" using "2.prems"(2) by simp
      then have "\<forall>x \<in> set (c # cs). is_blank x" by (simp add: list_all_iff)
      then show ?thesis by (auto simp: is_blank_def)
    qed
  qed
qed

lemma parse_number_shape:
  assumes "parse_number u = Some n"
  shows "43 \<notin> set u \<and> (\<exists>d ds. u = d # ds \<and> is_digit d)"
proof -
  from assms obtain d ds where u: "u = d # ds" and d: "is_digit d"
    by (auto simp: parse_number_def split: list.splits if_splits)
  from assms u d obtain m rest where "scan_digits (int (d - 48)) 1 ds = Some (n, m, rest)"
    and "list_all is_blank rest"
    by (auto simp: parse_number_def split: option.splits if_splits)
  then have "43 \<notin> set ds" by (rule scan_digits_no_plus)
  moreover have "d \<noteq> 43" using d by (auto simp: is_digit_def)
  ultimately show ?thesis using u d by simp
qed

lemma parse_signed_digit:
  "is_digit d \<Longrightarrow> parse_signed (d # ds) = parse_number (d # ds)"
  by (auto simp: parse_signed_def is_digit_def)

lemma dropWhile_blank_digit:
  "is_digit d \<Longrightarrow> list_all is_blank bl \<Longrightarrow> dropWhile is_blank (bl @ d # ds) = d # ds"
  by (induction bl) (auto simp: is_digit_def is_blank_def)

lemma filter_blank_plus:
  "list_all is_blank bl \<Longrightarrow> filter (\<lambda>c. c \<noteq> 43) bl = bl"
  by (induction bl) (auto simp: is_blank_def)

lemma parse_without_plus:
  assumes "parse_signed (dropWhile is_blank m) = Some n"
  shows "parse_signed (dropWhile is_blank (filter (\<lambda>c. c \<noteq> 43) m)) = Some n"
proof -
  define bl where "bl = takeWhile is_blank m"
  define r where "r = dropWhile is_blank m"
  have m: "m = bl @ r" by (simp add: bl_def r_def)
  have bl: "list_all is_blank bl"
    unfolding bl_def list_all_iff by (auto dest: set_takeWhileD)
  have fm: "filter (\<lambda>c. c \<noteq> 43) m = bl @ filter (\<lambda>c. c \<noteq> 43) r"
    using m filter_blank_plus[OF bl] by simp
  from assms have ps: "parse_signed r = Some n" by (simp add: r_def)
  then obtain c r' where r: "r = c # r'"
    by (cases r) (auto simp: parse_signed_def)
  have nb: "\<not> is_blank c"
    using r hd_dropWhile[of is_blank m] unfolding r_def by force
  show ?thesis
  proof (cases "c = 43")
    case True
    then have pn: "parse_number r' = Some n" using ps r by (simp add: parse_signed_def)
    from parse_number_shape[OF pn] obtain d ds where
      np: "43 \<notin> set r'" and r': "r' = d # ds" and d: "is_digit d" by auto
    have "filter (\<lambda>c. c \<noteq> 43) r = r'" using True r np by (auto simp: filter_id_conv)
    then have "dropWhile is_blank (filter (\<lambda>c. c \<noteq> 43) m) = d # ds"
      using fm r' dropWhile_blank_digit[OF d bl] by simp
    then show ?thesis using parse_signed_digit[OF d] pn r' by simp
  next
    case c43: False
    show ?thesis
    proof (cases "c = 45")
      case True
      then obtain k where pn: "parse_number r' = Some k"
        using ps r by (auto simp: parse_signed_def)
      from parse_number_shape[OF pn] have "43 \<notin> set r'" by simp
      then have "filter (\<lambda>c. c \<noteq> 43) r = r" using True r by (auto simp: filter_id_conv)
      then have "filter (\<lambda>c. c \<noteq> 43) m = m" using fm m by simp
      then show ?thesis using assms by simp
    next
      case False
      then have pn: "parse_number r = Some n" using ps r c43 by (simp add: parse_signed_def)
      from parse_number_shape[OF pn] have "43 \<notin> set r" by simp
      then have "filter (\<lambda>c. c \<noteq> 43) r = r" by (auto simp: filter_id_conv)
      then have "filter (\<lambda>c. c \<noteq> 43) m = m" using fm m by simp
      then show ?thesis using assms by simp
    qed
  qed
qed

lemma to_ascii_plus: "to_ascii c = 43 \<longleftrightarrow> c = 43"
  by (simp add: to_ascii_def split: option.splits)

lemma py_int_without_plus:
  assumes "py_int u = Some n"
  shows "py_int (py_remove 43 u) = Some n"
proof -
  have "map to_ascii (filter (\<lambda>c. c \<noteq> 43) u) = filter (\<lambda>c. c \<noteq> 43) (map to_ascii u)"
    by (simp add: filter_map comp_def to_ascii_plus)
  then show ?thesis
    using parse_without_plus[of "map to_ascii u" n] assms
    by (simp add: py_int_def py_remove_filter)
qed

lemma py_remove_rstrip: "py_remove a (py_rstrip a t) = py_remove a t"
proof -
  have "t = py_rstrip a t @ rev (takeWhile (\<lambda>c. c = a) (rev t))"
    unfolding py_rstrip_def
    by (metis rev_append rev_rev_ident takeWhile_dropWhile_id)
  moreover have "filter (\<lambda>c. c \<noteq> a) (rev (takeWhile (\<lambda>c. c = a) (rev t))) = []"
    by (auto simp: filter_empty_conv dest: set_takeWhileD)
  ultimately have "filter (\<lambda>c. c \<noteq> a) t = filter (\<lambda>c. c \<noteq> a) (py_rstrip a t)"
    by (metis append_Nil2 filter_append)
  then show ?thesis by (simp add: py_remove_filter)
qed

lemma spec_count_refines:
  assumes "spec_employee_count s = Some n"
  shows "py_int (py_remove 43 (py_remove 44 s)) = Some n"
  using py_int_without_plus[of "py_rstrip 43 (py_remove 44 s)" n] assms
  by (simp add: spec_employee_count_def py_remove_rstrip)

lemma py_int_nonempty: "py_int s = Some n \<Longrightarrow> s \<noteq> []"
  by (auto simp: py_int_def parse_signed_def)


section \<open>Archetype detection\<close>

lemma detect_company_dna_unfold:
  "detect_company_dna row =
     (case employee_count row of
        Some emp_count \<Rightarrow> size_dna emp_count
      | None \<Rightarrow> keyword_dna (py_lower (company_text row)))"
  by (simp only: detect_company_dna_def employee_count_def employees_value_def size_dna_def
        keyword_dna_def company_text_def Let_def)

lemma keyword_dna_spec:
  "keyword_dna (py_lower t) =
     (if \<exists>kw \<in> set [asc ''consulting'', asc ''agency'', asc ''partners'', asc ''group''].
           contains_ci kw t
      then asc ''Agency/Consultancy''
      else if \<exists>kw \<in> set [asc ''inc'', asc ''corp'', asc ''global'', asc ''international''].
           contains_ci kw t
      then asc ''Enterprise''
      else asc ''Mid-Market'')"
  unfolding keyword_dna_def
  by (simp only: list_ex_iff list.set ball_simps bex_simps contains_ci_code lower_keywords
        insert_iff empty_iff bex_Un bex_triv_one_point1 bex_triv_one_point2 simp_thms
        bex_simps bex_empty)

lemma keyword_dna_range:
  "keyword_dna c = asc ''Agency/Consultancy'' \<or> keyword_dna c = asc ''Enterprise'' \<or>
   keyword_dna c = asc ''Mid-Market''"
  by (simp add: keyword_dna_def)

lemma acme_partners: "keyword_dna (py_lower (asc ''Acme Partners'')) = asc ''Agency/Consultancy''"
  by (simp add: keyword_dna_def py_lower_def asc_def lower_char_def)

lemma employees_value_present:
  "row (asc ''employees'') = Some v \<Longrightarrow> employees_value row = v"
  by (simp add: employees_value_def dict_get_def)

lemma clean_filter:
  "py_remove 43 (py_remove 44 s) = filter (\<lambda>c. c \<noteq> 44 \<and> c \<noteq> 43) s"
  by (induction s) auto

lemma py_remove_absent: "a \<notin> set u \<Longrightarrow> py_remove a u = u"
  by (induction u) auto

lemma employee_count_filter:
  "employee_count row =
     (if py_truthy (employees_value row)
      then py_int (filter (\<lambda>c. c \<noteq> 44 \<and> c \<noteq> 43) (py_str (employees_value row)))
      else None)"
  by (simp only: employee_count_def clean_filter)

lemma one_plus_one:
  "spec_employee_count (asc ''1+1'') = None"
  "py_int (filter (\<lambda>c. c \<noteq> 44 \<and> c \<noteq> 43) (asc ''1+1'')) = Some 11"
  by (simp_all add: spec_employee_count_def py_rstrip_def int_eval)

text \<open>
  C3, as the code has it.  The claim as stated fails where the employees text converts
  only because a plus sign inside it is removed: "1+1" does not convert after stripping
  commas and trailing plus signs, yet the code converts it to 11 and the company "Acme
  Partners" gets "High-Growth Startup".  What holds: when the employees value is falsy,
  or its text with every comma and every plus sign removed does not convert to an
  integer, the archetype comes from matching the company, ignoring case, against the
  agency keywords first, then the enterprise keywords, with "Mid-Market" as the default.
  That is so in particular for an employees string that does not convert after stripping
  commas and trailing plus signs and has no other plus sign.  With employees unset and
  the company "Acme Partners" it is "Agency/Consultancy".
\<close>

theorem keyword_detection:
  "(employees_value row = v
    \<and> (\<not> py_truthy v \<or> py_int (filter (\<lambda>c. c \<noteq> 44 \<and> c \<noteq> 43) (py_str v)) = None) \<longrightarrow>
      detect_company_dna row =
        (if \<exists>kw \<in> set [asc ''consulting'', asc ''agency'', asc ''partners'', asc ''group''].
              contains_ci kw (company_text row)
         then asc ''Agency/Consultancy''
         else if \<exists>kw \<in> set [asc ''inc'', asc ''corp'', asc ''global'', asc ''international''].
              contains_ci kw (company_text row)
         then asc ''Enterprise''
         else asc ''Mid-Market''))
   \<and> (employees_value row = PStr s \<and> spec_employee_count s = None
        \<and> 43 \<notin> set (py_rstrip 43 (py_remove 44 s)) \<longrightarrow>
      detect_company_dna row =
        (if \<exists>kw \<in> set [asc ''consulting'', asc ''agency'', asc ''partners'', asc ''group''].
              contains_ci kw (company_text row)
         then asc ''Agency/Consultancy''
         else if \<exists>kw \<in> set [asc ''inc'', asc ''corp'', asc ''global'', asc ''international''].
              contains_ci kw (company_text row)
         then asc ''Enterprise''
         else asc ''Mid-Market''))
   \<and> (\<not> py_truthy (employees_value row) \<and> company_text row = asc ''Acme Partners'' \<longrightarrow>
        detect_company_dna row = asc ''Agency/Consultancy'')"
proof (intro conjI impI)
  assume "employees_value row = v
    \<and> (\<not> py_truthy v \<or> py_int (filter (\<lambda>c. c \<noteq> 44 \<and> c \<noteq> 43) (py_str v)) = None)"
  then have "employee_count row = None" by (auto simp: employee_count_filter)
  then show "detect_company_dna row =
        (if \<exists>kw \<in> set [asc ''consulting'', asc ''agency'', asc ''partners'', asc ''group''].
              contains_ci kw (company_text row)
         then asc ''Agency/Consultancy''
         else if \<exists>kw \<in> set [asc ''inc'', asc ''corp'', asc ''global'', asc ''international''].
              contains_ci kw (company_text row)
         then asc ''Enterprise''
         else asc ''Mid-Market'')"
    by (simp only: detect_company_dna_unfold option.case keyword_dna_spec)
next
  assume a: "employees_value row = PStr s \<and> spec_employee_count s = None
        \<and> 43 \<notin> set (py_rstrip 43 (py_remove 44 s))"
  then have "py_remove 43 (py_rstrip 43 (py_remove 44 s)) = py_rstrip 43 (py_remove 44 s)"
    by (simp add: py_remove_absent)
  then have "py_remove 43 (py_remove 44 s) = py_rstrip 43 (py_remove 44 s)"
    by (simp only: py_remove_rstrip)
  then have "py_int (py_remove 43 (py_remove 44 s)) = None"
    using a by (simp add: spec_employee_count_def)
  then have "employee_count row = None" using a by (simp add: employee_count_def)
  then show "detect_company_dna row =
        (if \<exists>kw \<in> set [asc ''consulting'', asc ''agency'', asc ''partners'', asc ''group''].
              contains_ci kw (company_text row)
         then asc ''Agency/Consultancy''
         else if \<exists>kw \<in> set [asc ''inc'', asc ''corp'', asc ''global'', asc ''international''].
              contains_ci kw (company_text row)
         then asc ''Enterprise''
         else asc ''Mid-Market'')"
    by (simp only: detect_company_dna_unfold option.case keyword_dna_spec)
next
  assume a: "\<not> py_truthy (employees_value row) \<and> company_text row = asc ''Acme Partners''"
  then have "employee_count row = None" by (simp add: employee_count_def)
  then show "detect_company_dna row = asc ''Agency/Consultancy''"
    using a by (simp only: detect_company_dna_unfold option.case acme_partners)
qed

theorem keyword_detection_witness:
  "detect_company_dna
       [asc ''employees'' \<mapsto> PStr [], asc ''company'' \<mapsto> PStr (asc ''Acme Partners'')]
     = asc ''Agency/Consultancy''
   \<and> py_int (filter (\<lambda>c. c \<noteq> 44 \<and> c \<noteq> 43) (asc ''n/a'')) = None
   \<and> detect_company_dna
       [asc ''employees'' \<mapsto> PStr (asc ''n/a''), asc ''company'' \<mapsto> PStr (asc ''Initech Corp'')]
     = asc ''Enterprise''"
proof -
  let ?r1 = "[asc ''employees'' \<mapsto> PStr [], asc ''company'' \<mapsto> PStr (asc ''Acme Partners'')]"
  let ?r2 = "[asc ''employees'' \<mapsto> PStr (asc ''n/a''),
              asc ''company'' \<mapsto> PStr (asc ''Initech Corp'')]"
  have e1: "\<not> py_truthy (employees_value ?r1)"
    by (simp add: employees_value_def dict_get_def asc_def)
  have c1: "company_text ?r1 = asc ''Acme Partners''"
    by (simp add: company_text_def dict_get_def asc_def)
  have "?r2 (asc ''employees'') = Some (PStr (asc ''n/a''))" by (simp add: asc_def)
  then have e2: "employees_value ?r2 = PStr (asc ''n/a'')" by (rule employees_value_present)
  have n2: "py_int (filter (\<lambda>c. c \<noteq> 44 \<and> c \<noteq> 43) (py_str (PStr (asc ''n/a'')))) = None"
    by (simp add: int_eval)
  have c2: "company_text ?r2 = asc ''Initech Corp''"
    by (simp add: company_text_def dict_get_def asc_def)
  have k1: "\<not> (\<exists>kw \<in> set [asc ''consulting'', asc ''agency'', asc ''partners'', asc ''group''].
              contains_ci kw (asc ''Initech Corp''))"
    by (simp add: contains_ci_code py_lower_def asc_def lower_char_def)
  have k2: "\<exists>kw \<in> set [asc ''inc'', asc ''corp'', asc ''global'', asc ''international''].
              contains_ci kw (asc ''Initech Corp'')"
    by (simp add: contains_ci_code py_lower_def asc_def lower_char_def)
  have p1: "detect_company_dna ?r1 = asc ''Agency/Consultancy''"
    using keyword_detection [of ?r1] e1 c1 by blast
  have "detect_company_dna ?r2 =
        (if \<exists>kw \<in> set [asc ''consulting'', asc ''agency'', asc ''partners'', asc ''group''].
              contains_ci kw (company_text ?r2)
         then asc ''Agency/Consultancy''
         else if \<exists>kw \<in> set [asc ''inc'', asc ''corp'', asc ''global'', asc ''international''].
              contains_ci kw (company_text ?r2)
         then asc ''Enterprise''
         else asc ''Mid-Market'')"
    using keyword_detection [of ?r2 "PStr (asc ''n/a'')"] e2 n2 by blast
  then have p2: "detect_company_dna ?r2 = asc ''Enterprise''"
    using k1 k2 unfolding c2 by (simp only: if_True if_False simp_thms)
  have n: "py_int (filter (\<lambda>c. c \<noteq> 44 \<and> c \<noteq> 43) (asc ''n/a'')) = None"
    using n2 by simp
  show ?thesis using p1 p2 n by blast
qed

theorem keyword_detection_counterexample:
  "spec_employee_count (asc ''1+1'') = None
   \<and> contains_ci (asc ''partners'') (asc ''Acme Partners'')
   \<and> detect_company_dna
       [asc ''employees'' \<mapsto> PStr (asc ''1+1''), asc ''company'' \<mapsto> PStr (asc ''Acme Partners'')]
     = asc ''High-Growth Startup''"
proof -
  let ?r = "[asc ''employees'' \<mapsto> PStr (asc ''1+1''),
             asc ''company'' \<mapsto> PStr (asc ''Acme Partners'')]"
  have "?r (asc ''employees'') = Some (PStr (asc ''1+1''))" by (simp add: asc_def)
  then have v: "employees_value ?r = PStr (asc ''1+1'')" by (rule employees_value_present)
  have "py_truthy (PStr (asc ''1+1''))" by (simp add: asc_def)
  then have "employee_count ?r = Some 11"
    using one_plus_one(2) by (simp add: employee_count_filter v)
  then have "detect_company_dna ?r = asc ''High-Growth Startup''"
    by (simp add: detect_company_dna_unfold size_dna_def)
  moreover have "contains_ci (asc ''partners'') (asc ''Acme Partners'')"
    by (simp add: contains_ci_code py_lower_def asc_def lower_char_def)
  ultimately show ?thesis using one_plus_one(1) by blast
qed

lemma spec_employee_count_examples:
  "spec_employee_count (asc ''45'') = Some 45"
  "spec_employee_count (asc ''120'') = Some 120"
  "spec_employee_count (asc ''500'') = Some 500"
  "spec_employee_count (asc ''800'') = Some 800"
  "spec_employee_count (asc ''1,200+'') = Some 1200"
  by (simp_all add: spec_employee_count_def py_rstrip_def int_eval)

lemma size_rule_applies:
  assumes "row (asc ''employees'') = Some (PStr s)" and "spec_employee_count s = Some n"
  shows "detect_company_dna row = size_dna n"
proof -
  have v: "employees_value row = PStr s" using assms(1) by (rule employees_value_present)
  have "s \<noteq> []"
    using assms(2) by (auto simp: spec_employee_count_def py_rstrip_def dest: py_int_nonempty)
  then have "employee_count row = py_int (py_remove 43 (py_remove 44 s))"
    by (simp add: employee_count_def v)
  then have "employee_count row = Some n"
    using spec_count_refines[OF assms(2)] by simp
  then show ?thesis by (simp only: detect_company_dna_unfold option.case)
qed

text \<open>
  C2.  When the employees text converts to an integer \<open>n\<close> after stripping commas and
  trailing plus signs, the archetype is decided by \<open>n\<close> alone, whatever the company is:
  below 50 "High-Growth Startup", from 50 to 499 "Mid-Market", from 500 on "Enterprise".
  So "45", "120", "500" and "800" give "High-Growth Startup", "Mid-Market", "Enterprise"
  and "Enterprise" for every company, also one that contains "inc".  (The fields of a
  canonical lead are strings.  For an employees value that is a number other than 0 the
  rule applies in the same way, \<open>size_rule_applies_number\<close>; the number 0 is the subject
  of C10.)
\<close>

theorem size_detection:
  "(row (asc ''employees'') = Some (PStr s) \<and> spec_employee_count s = Some n \<longrightarrow>
      detect_company_dna row =
        (if n < 50 then asc ''High-Growth Startup''
         else if n < 500 then asc ''Mid-Market''
         else asc ''Enterprise''))
   \<and> (row (asc ''employees'') = Some (PStr (asc ''45'')) \<longrightarrow>
        detect_company_dna row = asc ''High-Growth Startup'')
   \<and> (row (asc ''employees'') = Some (PStr (asc ''120'')) \<longrightarrow>
        detect_company_dna row = asc ''Mid-Market'')
   \<and> (row (asc ''employees'') = Some (PStr (asc ''500'')) \<longrightarrow>
        detect_company_dna row = asc ''Enterprise'')
   \<and> (row (asc ''employees'') = Some (PStr (asc ''800'')) \<longrightarrow>
        detect_company_dna row = asc ''Enterprise'')"
proof (intro conjI impI)
  assume "row (asc ''employees'') = Some (PStr s) \<and> spec_employee_count s = Some n"
  then have "detect_company_dna row = size_dna n" by (simp add: size_rule_applies)
  then show "detect_company_dna row =
        (if n < 50 then asc ''High-Growth Startup''
         else if n < 500 then asc ''Mid-Market''
         else asc ''Enterprise'')"
    by (simp only: size_dna_def)
next
  assume "row (asc ''employees'') = Some (PStr (asc ''45''))"
  then have "detect_company_dna row = size_dna 45"
    using spec_employee_count_examples(1) by (rule size_rule_applies)
  then show "detect_company_dna row = asc ''High-Growth Startup''" by (simp add: size_dna_def)
next
  assume "row (asc ''employees'') = Some (PStr (asc ''120''))"
  then have "detect_company_dna row = size_dna 120"
    using spec_employee_count_examples(2) by (rule size_rule_applies)
  then show "detect_company_dna row = asc ''Mid-Market''" by (simp add: size_dna_def)
next
  assume "row (asc ''employees'') = Some (PStr (asc ''500''))"
  then have "detect_company_dna row = size_dna 500"
    using spec_employee_count_examples(3) by (rule size_rule_applies)
  then show "detect_company_dna row = asc ''Enterprise''" by (simp add: size_dna_def)
next
  assume "row (asc ''employees'') = Some (PStr (asc ''800''))"
  then have "detect_company_dna row = size_dna 800"
    using spec_employee_count_examples(4) by (rule size_rule_applies)
  then show "detect_company_dna row = asc ''Enterprise''" by (simp add: size_dna_def)
qed

theorem size_detection_witness:
  "contains_ci (asc ''inc'') (asc ''Acme Inc'')
   \<and> detect_company_dna
        [asc ''company'' \<mapsto> PStr (asc ''Acme Inc''), asc ''employees'' \<mapsto> PStr (asc ''45'')]
      = asc ''High-Growth Startup''
   \<and> detect_company_dna
        [asc ''company'' \<mapsto> PStr (asc ''Acme Inc''), asc ''employees'' \<mapsto> PStr (asc ''800'')]
      = asc ''Enterprise''
   \<and> spec_employee_count (asc ''1,200+'') = Some 1200
   \<and> detect_company_dna
        [asc ''company'' \<mapsto> PStr (asc ''Acme''), asc ''employees'' \<mapsto> PStr (asc ''1,200+'')]
      = asc ''Enterprise''"
proof -
  let ?r1 = "[asc ''company'' \<mapsto> PStr (asc ''Acme Inc''),
              asc ''employees'' \<mapsto> PStr (asc ''45'')]"
  let ?r2 = "[asc ''company'' \<mapsto> PStr (asc ''Acme Inc''),
              asc ''employees'' \<mapsto> PStr (asc ''800'')]"
  let ?r3 = "[asc ''company'' \<mapsto> PStr (asc ''Acme''),
              asc ''employees'' \<mapsto> PStr (asc ''1,200+'')]"
  have c: "contains_ci (asc ''inc'') (asc ''Acme Inc'')"
    by (simp add: contains_ci_code py_lower_def asc_def lower_char_def)
  have e1: "?r1 (asc ''employees'') = Some (PStr (asc ''45''))" by simp
  have e2: "?r2 (asc ''employees'') = Some (PStr (asc ''800''))" by simp
  have e3: "?r3 (asc ''employees'') = Some (PStr (asc ''1,200+''))" by simp
  have p1: "detect_company_dna ?r1 = asc ''High-Growth Startup''"
    using size_detection [of ?r1] e1 by blast
  have p2: "detect_company_dna ?r2 = asc ''Enterprise''"
    using size_detection [of ?r2] e2 by blast
  have "detect_company_dna ?r3 =
          (if (1200::int) < 50 then asc ''High-Growth Startup''
           else if (1200::int) < 500 then asc ''Mid-Market'' else asc ''Enterprise'')"
    using size_detection [of ?r3 "asc ''1,200+''" 1200] e3 spec_employee_count_examples(5)
    by blast
  then have p3: "detect_company_dna ?r3 = asc ''Enterprise''" by simp
  show ?thesis using c p1 p2 p3 spec_employee_count_examples(5) by blast
qed

lemma cleaned_examples:
  "py_int (filter (\<lambda>c. c \<noteq> 44 \<and> c \<noteq> 43) (asc ''+500'')) = Some 500"
  "py_int (filter (\<lambda>c. c \<noteq> 44 \<and> c \<noteq> 43) (asc ''5+0,0'')) = Some 500"
  "py_int (filter (\<lambda>c. c \<noteq> 44 \<and> c \<noteq> 43) (asc ''+45'')) = Some 45"
  "py_int (filter (\<lambda>c. c \<noteq> 44 \<and> c \<noteq> 43) (asc ''1+2+0'')) = Some 120"
  "py_int (asc ''5+0,0'') = None"
  "py_int (asc ''1+2+0'') = None"
  by (simp_all add: int_eval)

lemma cleaned_count_decides:
  assumes "row (asc ''employees'') = Some (PStr s)"
    and "py_int (filter (\<lambda>c. c \<noteq> 44 \<and> c \<noteq> 43) s) = Some n"
  shows "detect_company_dna row = size_dna n"
proof -
  have v: "employees_value row = PStr s" using assms(1) by (rule employees_value_present)
  have "s \<noteq> []" using assms(2) by (auto dest: py_int_nonempty)
  then have "employee_count row = Some n"
    using assms(2) by (simp add: employee_count_filter v)
  then show ?thesis by (simp only: detect_company_dna_unfold option.case)
qed

text \<open>
  C9.  Before the conversion to an integer the employees text loses every comma and
  every plus sign, wherever they stand: for every employees string, when the string with
  exactly these characters filtered out converts to \<open>n\<close>, \<open>detect_company_dna\<close> returns
  the size class of \<open>n\<close>.  So "+500" gives "Enterprise", "+45" gives "High-Growth
  Startup", and "5+0,0" and "1+2+0", which do not convert as they stand, give
  "Enterprise" and "Mid-Market".
\<close>

theorem employees_cleaning:
  "py_remove 43 (py_remove 44 s) = filter (\<lambda>c. c \<noteq> 44 \<and> c \<noteq> 43) s
   \<and> (row (asc ''employees'') = Some (PStr s)
        \<and> py_int (filter (\<lambda>c. c \<noteq> 44 \<and> c \<noteq> 43) s) = Some n \<longrightarrow>
        detect_company_dna row =
          (if n < 50 then asc ''High-Growth Startup''
           else if n < 500 then asc ''Mid-Market''
           else asc ''Enterprise''))
   \<and> (row (asc ''employees'') = Some (PStr (asc ''+500'')) \<longrightarrow>
        detect_company_dna row = asc ''Enterprise'')
   \<and> (row (asc ''employees'') = Some (PStr (asc ''+45'')) \<longrightarrow>
        detect_company_dna row = asc ''High-Growth Startup'')
   \<and> (row (asc ''employees'') = Some (PStr (asc ''5+0,0'')) \<longrightarrow>
        detect_company_dna row = asc ''Enterprise'')
   \<and> (row (asc ''employees'') = Some (PStr (asc ''1+2+0'')) \<longrightarrow>
        detect_company_dna row = asc ''Mid-Market'')"
proof (intro conjI impI)
  show "py_remove 43 (py_remove 44 s) = filter (\<lambda>c. c \<noteq> 44 \<and> c \<noteq> 43) s"
    by (rule clean_filter)
next
  assume "row (asc ''employees'') = Some (PStr s)
        \<and> py_int (filter (\<lambda>c. c \<noteq> 44 \<and> c \<noteq> 43) s) = Some n"
  then have "detect_company_dna row = size_dna n" by (simp add: cleaned_count_decides)
  then show "detect_company_dna row =
          (if n < 50 then asc ''High-Growth Startup''
           else if n < 500 then asc ''Mid-Market''
           else asc ''Enterprise'')"
    by (simp only: size_dna_def)
next
  assume "row (asc ''employees'') = Some (PStr (asc ''+500''))"
  then have "detect_company_dna row = size_dna 500"
    using cleaned_examples(1) by (rule cleaned_count_decides)
  then show "detect_company_dna row = asc ''Enterprise''" by (simp add: size_dna_def)
next
  assume "row (asc ''employees'') = Some (PStr (asc ''+45''))"
  then have "detect_company_dna row = size_dna 45"
    using cleaned_examples(3) by (rule cleaned_count_decides)
  then show "detect_company_dna row = asc ''High-Growth Startup''" by (simp add: size_dna_def)
next
  assume "row (asc ''employees'') = Some (PStr (asc ''5+0,0''))"
  then have "detect_company_dna row = size_dna 500"
    using cleaned_examples(2) by (rule cleaned_count_decides)
  then show "detect_company_dna row = asc ''Enterprise''" by (simp add: size_dna_def)
next
  assume "row (asc ''employees'') = Some (PStr (asc ''1+2+0''))"
  then have "detect_company_dna row = size_dna 120"
    using cleaned_examples(4) by (rule cleaned_count_decides)
  then show "detect_company_dna row = asc ''Mid-Market''" by (simp add: size_dna_def)
qed

theorem employees_cleaning_witness:
  "detect_company_dna
     [asc ''company'' \<mapsto> PStr (asc ''Acme Partners''), asc ''employees'' \<mapsto> PStr (asc ''+500'')]
     = asc ''Enterprise''
   \<and> detect_company_dna
     [asc ''company'' \<mapsto> PStr (asc ''Acme Partners''), asc ''employees'' \<mapsto> PStr (asc ''+45'')]
     = asc ''High-Growth Startup''
   \<and> py_int (asc ''1+2+0'') = None
   \<and> py_int (filter (\<lambda>c. c \<noteq> 44 \<and> c \<noteq> 43) (asc ''1+2+0'')) = Some 120
   \<and> detect_company_dna
     [asc ''company'' \<mapsto> PStr (asc ''Acme Partners''), asc ''employees'' \<mapsto> PStr (asc ''1+2+0'')]
     = asc ''Mid-Market''
   \<and> py_int (filter (\<lambda>c. c \<noteq> 44 \<and> c \<noteq> 43) (asc ''7,5+00'')) = Some 7500
   \<and> detect_company_dna
     [asc ''company'' \<mapsto> PStr (asc ''Acme Partners''), asc ''employees'' \<mapsto> PStr (asc ''7,5+00'')]
     = asc ''Enterprise''"
proof -
  let ?r1 = "[asc ''company'' \<mapsto> PStr (asc ''Acme Partners''),
              asc ''employees'' \<mapsto> PStr (asc ''+500'')]"
  let ?r2 = "[asc ''company'' \<mapsto> PStr (asc ''Acme Partners''),
              asc ''employees'' \<mapsto> PStr (asc ''+45'')]"
  let ?r3 = "[asc ''company'' \<mapsto> PStr (asc ''Acme Partners''),
              asc ''employees'' \<mapsto> PStr (asc ''1+2+0'')]"
  let ?r4 = "[asc ''company'' \<mapsto> PStr (asc ''Acme Partners''),
              asc ''employees'' \<mapsto> PStr (asc ''7,5+00'')]"
  have e1: "?r1 (asc ''employees'') = Some (PStr (asc ''+500''))" by simp
  have e2: "?r2 (asc ''employees'') = Some (PStr (asc ''+45''))" by simp
  have e3: "?r3 (asc ''employees'') = Some (PStr (asc ''1+2+0''))" by simp
  have e4: "?r4 (asc ''employees'') = Some (PStr (asc ''7,5+00''))" by simp
  have c4: "py_int (filter (\<lambda>c. c \<noteq> 44 \<and> c \<noteq> 43) (asc ''7,5+00'')) = Some 7500"
    by (simp add: int_eval)
  have p1: "detect_company_dna ?r1 = asc ''Enterprise''"
    using employees_cleaning [of "[]" ?r1] e1 by blast
  have p2: "detect_company_dna ?r2 = asc ''High-Growth Startup''"
    using employees_cleaning [of "[]" ?r2] e2 by blast
  have p3: "detect_company_dna ?r3 = asc ''Mid-Market''"
    using employees_cleaning [of "[]" ?r3] e3 by blast
  have "detect_company_dna ?r4 =
          (if (7500::int) < 50 then asc ''High-Growth Startup''
           else if (7500::int) < 500 then asc ''Mid-Market''
           else asc ''Enterprise'')"
    using employees_cleaning [of "asc ''7,5+00''" ?r4 7500] e4 c4 by blast
  then have p4: "detect_company_dna ?r4 = asc ''Enterprise''" by simp
  show ?thesis using p1 p2 p3 p4 c4 cleaned_examples(4) cleaned_examples(6) by blast
qed

lemma not_startup:
  "asc ''Agency/Consultancy'' \<noteq> asc ''High-Growth Startup''"
  "asc ''Enterprise'' \<noteq> asc ''High-Growth Startup''"
  "asc ''Mid-Market'' \<noteq> asc ''High-Growth Startup''"
  by (simp_all add: asc_def)

lemma falsy_skips_size_rule:
  assumes "\<not> py_truthy (employees_value row)"
  shows "employee_count row = None"
    and "detect_company_dna row = keyword_dna (py_lower (company_text row))"
    and "detect_company_dna row \<noteq> asc ''High-Growth Startup''"
proof -
  show c: "employee_count row = None" using assms by (simp add: employee_count_def)
  show d: "detect_company_dna row = keyword_dna (py_lower (company_text row))"
    by (simp only: detect_company_dna_unfold c option.case)
  show "detect_company_dna row \<noteq> asc ''High-Growth Startup''"
    using keyword_dna_range[of "py_lower (company_text row)"] not_startup unfolding d by metis
qed

lemma zero_text_converts:
  "py_int (py_remove 43 (py_remove 44 (py_str (PInt 0)))) = Some 0"
  "py_int (py_remove 43 (py_remove 44 (py_str (PStr (asc ''0''))))) = Some 0"
  by (simp_all add: str_of_int_def digits_of.simps int_eval)

text \<open>
  C10.  The size rule runs only for a truthy employees value.  For the empty string and
  for the number 0 it is skipped, the archetype is the one the keyword rules give for the
  company, and that is never "High-Growth Startup"; the text of the number 0 would
  convert to 0, so only the truth test keeps the rule from applying.  For the string "0"
  the rule runs and the archetype is "High-Growth Startup".
\<close>

theorem size_rule_needs_truthy:
  "(\<not> py_truthy (employees_value row) \<longrightarrow>
      employee_count row = None
      \<and> detect_company_dna row = keyword_dna (py_lower (company_text row))
      \<and> detect_company_dna row \<noteq> asc ''High-Growth Startup'')
   \<and> (row (asc ''employees'') = Some (PStr []) \<or> row (asc ''employees'') = Some (PInt 0) \<longrightarrow>
        employee_count row = None
        \<and> detect_company_dna row = keyword_dna (py_lower (company_text row))
        \<and> detect_company_dna row \<noteq> asc ''High-Growth Startup'')
   \<and> py_int (py_remove 43 (py_remove 44 (py_str (PInt 0)))) = Some 0
   \<and> (row (asc ''employees'') = Some (PStr (asc ''0'')) \<longrightarrow>
        detect_company_dna row = asc ''High-Growth Startup'')"
proof (intro conjI impI)
  assume a: "\<not> py_truthy (employees_value row)"
  show "employee_count row = None"
    and "detect_company_dna row = keyword_dna (py_lower (company_text row))"
    and "detect_company_dna row \<noteq> asc ''High-Growth Startup''"
    using falsy_skips_size_rule[OF a] by blast+
next
  assume "row (asc ''employees'') = Some (PStr []) \<or> row (asc ''employees'') = Some (PInt 0)"
  then have "employees_value row = PStr [] \<or> employees_value row = PInt 0"
    by (auto dest: employees_value_present)
  then have a: "\<not> py_truthy (employees_value row)" by auto
  show "employee_count row = None"
    and "detect_company_dna row = keyword_dna (py_lower (company_text row))"
    and "detect_company_dna row \<noteq> asc ''High-Growth Startup''"
    using falsy_skips_size_rule[OF a] by blast+
next
  show "py_int (py_remove 43 (py_remove 44 (py_str (PInt 0)))) = Some 0"
    by (rule zero_text_converts)
next
  assume "row (asc ''employees'') = Some (PStr (asc ''0''))"
  then have v: "employees_value row = PStr (asc ''0'')" by (rule employees_value_present)
  have "py_truthy (PStr (asc ''0''))" by (simp add: asc_def)
  then have "employee_count row = Some 0"
    using zero_text_converts(2) by (simp only: employee_count_def v if_True)
  then show "detect_company_dna row = asc ''High-Growth Startup''"
    by (simp add: detect_company_dna_unfold size_dna_def)
qed

theorem size_rule_needs_truthy_witness:
  "detect_company_dna [asc ''company'' \<mapsto> PStr (asc ''Tiny''), asc ''employees'' \<mapsto> PInt 0]
     = asc ''Mid-Market''
   \<and> detect_company_dna [asc ''company'' \<mapsto> PStr (asc ''Tiny''), asc ''employees'' \<mapsto> PStr []]
     = asc ''Mid-Market''
   \<and> detect_company_dna
       [asc ''company'' \<mapsto> PStr (asc ''Tiny''), asc ''employees'' \<mapsto> PStr (asc ''0'')]
     = asc ''High-Growth Startup''"
proof -
  let ?r1 = "[asc ''company'' \<mapsto> PStr (asc ''Tiny''), asc ''employees'' \<mapsto> PInt 0]"
  let ?r2 = "[asc ''company'' \<mapsto> PStr (asc ''Tiny''), asc ''employees'' \<mapsto> PStr []]"
  let ?r3 = "[asc ''company'' \<mapsto> PStr (asc ''Tiny''), asc ''employees'' \<mapsto> PStr (asc ''0'')]"
  have k: "keyword_dna (py_lower (asc ''Tiny'')) = asc ''Mid-Market''"
    by (simp add: keyword_dna_def py_lower_def asc_def lower_char_def)
  have c1: "company_text ?r1 = asc ''Tiny''" by (simp add: company_text_def dict_get_def asc_def)
  have c2: "company_text ?r2 = asc ''Tiny''" by (simp add: company_text_def dict_get_def asc_def)
  have e1: "?r1 (asc ''employees'') = Some (PInt 0)" by simp
  have e2: "?r2 (asc ''employees'') = Some (PStr [])" by simp
  have e3: "?r3 (asc ''employees'') = Some (PStr (asc ''0''))" by simp
  have "detect_company_dna ?r1 = keyword_dna (py_lower (company_text ?r1))"
    using size_rule_needs_truthy [of ?r1] e1 by blast
  then have p1: "detect_company_dna ?r1 = asc ''Mid-Market''" by (simp only: c1 k)
  have "detect_company_dna ?r2 = keyword_dna (py_lower (company_text ?r2))"
    using size_rule_needs_truthy [of ?r2] e2 by blast
  then have p2: "detect_company_dna ?r2 = asc ''Mid-Market''" by (simp only: c2 k)
  have p3: "detect_company_dna ?r3 = asc ''High-Growth Startup''"
    using size_rule_needs_truthy [of ?r3] e3 by blast
  show ?thesis using p1 p2 p3 by blast
qed

section \<open>Script generation\<close>

lemma truncate_msg_length: "length (truncate_msg msg) \<le> 300"
  by (simp add: truncate_msg_def asc_def)

lemma keys_distinct:
  "asc ''Mid-Market'' \<noteq> asc ''High-Growth Startup''"
  "asc ''Mid-Market'' \<noteq> asc ''Enterprise''"
  "asc ''Mid-Market'' \<noteq> asc ''Agency/Consultancy''"
  by (simp_all add: asc_def)

lemma bundle_mid_market:
  "map_of [(asc ''High-Growth Startup'', a), (asc ''Enterprise'', b), (asc ''Mid-Market'', c),
           (asc ''Agency/Consultancy'', d)] (asc ''Mid-Market'') = Some c"
  by (simp add: asc_def)

lemma bundle_unknown:
  assumes "company_dna \<notin> PStr ` {asc ''High-Growth Startup'', asc ''Enterprise'',
             asc ''Mid-Market'', asc ''Agency/Consultancy''}"
  shows "dict_get_val
           (map_of [(asc ''High-Growth Startup'', a), (asc ''Enterprise'', b),
                    (asc ''Mid-Market'', c), (asc ''Agency/Consultancy'', d)])
           company_dna dflt = dflt"
proof (cases company_dna)
  case (PStr k)
  then have "k \<noteq> asc ''High-Growth Startup''" "k \<noteq> asc ''Enterprise''"
    "k \<noteq> asc ''Mid-Market''" "k \<noteq> asc ''Agency/Consultancy''"
    using assms by auto
  then show ?thesis using PStr by (simp add: dict_get_val_def dict_get_def)
qed (simp_all add: dict_get_val_def)

lemma bundle_fallback:
  assumes "company_dna \<notin> PStr ` {asc ''High-Growth Startup'', asc ''Enterprise'',
             asc ''Mid-Market'', asc ''Agency/Consultancy''}"
  shows "dict_get_val
           (map_of [(asc ''High-Growth Startup'', a), (asc ''Enterprise'', b),
                    (asc ''Mid-Market'', c), (asc ''Agency/Consultancy'', d)])
           company_dna c
         = dict_get_val
           (map_of [(asc ''High-Growth Startup'', a), (asc ''Enterprise'', b),
                    (asc ''Mid-Market'', c), (asc ''Agency/Consultancy'', d)])
           (PStr (asc ''Mid-Market'')) c"
  by (simp only: bundle_unknown[OF assms])
     (simp only: dict_get_val_def dict_get_def bundle_mid_market pyval.case option.case)

lemma messages_mid_market:
  "\<exists>c. dict_item (messages fn co vp) (asc ''Mid-Market'') = Inr c
       \<and> dict_get (messages fn co vp) (asc ''Mid-Market'') [] = c"
  unfolding messages_def dict_item_def dict_get_def
  by (simp only: bundle_mid_market option.case) blast

lemma generate_linkedin_message_unfold:
  assumes "first_name_of row = Inr fn"
  shows "generate_linkedin_message row company_dna value_prop =
           Inr (truncate_msg (rendered_message fn row company_dna value_prop))"
proof -
  let ?co = "py_str (dict_get row (asc ''company'') (PStr (asc ''your company'')))"
  obtain c where c: "dict_item (messages (py_str fn) ?co value_prop) (asc ''Mid-Market'') = Inr c"
      "dict_get (messages (py_str fn) ?co value_prop) (asc ''Mid-Market'') [] = c"
    using messages_mid_market by blast
  show ?thesis
    by (simp add: generate_linkedin_message_def rendered_message_def assms ebind_def Let_def c)
qed

lemma first_name_of_cases:
  "first_name_of row = Inl IndexError \<or> first_name_of row = Inl AttributeError
   \<or> (\<exists>fn. first_name_of row = Inr fn)"
  by (cases "first_name_of row") (auto simp: first_name_of_def ebind_def split_first_def
        split: pyval.splits list.splits sum.splits)

lemma split_there: "split_first (PStr (asc ''there'')) = Inr (PStr (asc ''there''))"
  by (simp add: split_first_def py_split_def asc_def is_space_def)

lemma first_name_of_no_name:
  "row (asc ''name'') = None \<Longrightarrow>
     first_name_of row = Inr (dict_get row (asc ''first_name'') (PStr (asc ''there'')))"
  by (simp add: first_name_of_def dict_get_def[of row "asc ''name''"] split_there ebind_def)

text \<open>
  C5.  For every archetype value, row and value proposition, a connection message that
  \<open>generate_linkedin_message\<close> returns has at most 300 characters.  For a row without a
  \<open>name\<close> column, as every canonical lead is, it does return one: the rendered template
  itself when that has at most 300 characters, and otherwise its first 295 characters
  followed by the three-character ellipsis "...".
\<close>

theorem linkedin_message_length:
  "(generate_linkedin_message row company_dna value_prop = Inr out \<longrightarrow> length out \<le> 300)
   \<and> (row (asc ''name'') = None \<longrightarrow>
        (\<exists>msg res. msg = rendered_message (dict_get row (asc ''first_name'') (PStr (asc ''there'')))
                           row company_dna value_prop
           \<and> generate_linkedin_message row company_dna value_prop = Inr res
           \<and> res = (if length msg > 300 then take 295 msg @ asc ''...'' else msg)
           \<and> length res \<le> 300))"
proof (intro conjI impI)
  assume a: "generate_linkedin_message row company_dna value_prop = Inr out"
  then obtain fn where "first_name_of row = Inr fn"
    by (cases "first_name_of row") (auto simp: generate_linkedin_message_def ebind_def)
  from generate_linkedin_message_unfold[OF this, of company_dna value_prop] a
  show "length out \<le> 300" using truncate_msg_length by auto
next
  assume "row (asc ''name'') = None"
  then have f: "first_name_of row =
      Inr (dict_get row (asc ''first_name'') (PStr (asc ''there'')))"
    by (rule first_name_of_no_name)
  let ?msg = "rendered_message (dict_get row (asc ''first_name'') (PStr (asc ''there'')))
                row company_dna value_prop"
  have "generate_linkedin_message row company_dna value_prop = Inr (truncate_msg ?msg)"
    using generate_linkedin_message_unfold[OF f] .
  moreover have "truncate_msg ?msg = (if length ?msg > 300 then take 295 ?msg @ asc ''...'' else ?msg)"
    by (simp only: truncate_msg_def)
  moreover have "length (truncate_msg ?msg) \<le> 300" by (rule truncate_msg_length)
  ultimately show "\<exists>msg res. msg = ?msg
           \<and> generate_linkedin_message row company_dna value_prop = Inr res
           \<and> res = (if length msg > 300 then take 295 msg @ asc ''...'' else msg)
           \<and> length res \<le> 300"
    by simp
qed

theorem linkedin_message_length_witness:
  "(\<exists>res. generate_linkedin_message
            [asc ''first_name'' \<mapsto> PStr (asc ''Jane''), asc ''company'' \<mapsto> PStr (asc ''Acme'')]
            (PStr (asc ''Enterprise'')) (asc ''X'') = Inr res
          \<and> length res = 103)
   \<and> (\<exists>res. generate_linkedin_message
            [asc ''first_name'' \<mapsto> PStr (asc ''Jane''), asc ''company'' \<mapsto> PStr (asc ''Acme'')]
            (PStr (asc ''Enterprise'')) (replicate 400 88) = Inr res
          \<and> length res = 298)"
proof -
  let ?r = "[asc ''first_name'' \<mapsto> PStr (asc ''Jane''), asc ''company'' \<mapsto> PStr (asc ''Acme'')]"
  let ?dna = "PStr (asc ''Enterprise'')"
  have n: "?r (asc ''name'') = None" by (simp add: asc_def)
  have l1: "length (rendered_message (dict_get ?r (asc ''first_name'') (PStr (asc ''there'')))
              ?r ?dna (asc ''X'')) = 103"
    by (simp add: rendered_message_def messages_def dict_get_val_def dict_get_def asc_def)
  have l2: "length (rendered_message (dict_get ?r (asc ''first_name'') (PStr (asc ''there'')))
              ?r ?dna (replicate 400 88)) = 502"
    by (simp add: rendered_message_def messages_def dict_get_val_def dict_get_def asc_def)
  have l3: "length (asc ''...'') = 3" by (simp add: asc_def)
  obtain res1 where r1: "generate_linkedin_message ?r ?dna (asc ''X'') = Inr res1"
      "res1 = (if length (rendered_message (dict_get ?r (asc ''first_name'') (PStr (asc ''there'')))
                 ?r ?dna (asc ''X'')) > 300
               then take 295 (rendered_message (dict_get ?r (asc ''first_name'')
                 (PStr (asc ''there''))) ?r ?dna (asc ''X'')) @ asc ''...''
               else rendered_message (dict_get ?r (asc ''first_name'') (PStr (asc ''there'')))
                 ?r ?dna (asc ''X''))"
    using linkedin_message_length [of ?r ?dna "asc ''X''"] n by blast
  obtain res2 where r2: "generate_linkedin_message ?r ?dna (replicate 400 88) = Inr res2"
      "res2 = (if length (rendered_message (dict_get ?r (asc ''first_name'') (PStr (asc ''there'')))
                 ?r ?dna (replicate 400 88)) > 300
               then take 295 (rendered_message (dict_get ?r (asc ''first_name'')
                 (PStr (asc ''there''))) ?r ?dna (replicate 400 88)) @ asc ''...''
               else rendered_message (dict_get ?r (asc ''first_name'') (PStr (asc ''there'')))
                 ?r ?dna (replicate 400 88))"
    using linkedin_message_length [of ?r ?dna "replicate 400 88"] n by blast
  have "length res1 = 103" using r1(2) l1 by simp
  moreover have "length res2 = 298" using r2(2) l2 l3 by simp
  ultimately show ?thesis using r1(1) r2(1) by blast
qed

lemma bundle_item_mid_market:
  "dict_item
     (map_of [(asc ''High-Growth Startup'', a), (asc ''Enterprise'', b), (asc ''Mid-Market'', c),
              (asc ''Agency/Consultancy'', d)]) (asc ''Mid-Market'') = Inr c"
  by (simp only: dict_item_def bundle_mid_market option.case)

lemma subject_fallback:
  assumes "company_dna \<notin> PStr ` {asc ''High-Growth Startup'', asc ''Enterprise'',
             asc ''Mid-Market'', asc ''Agency/Consultancy''}"
  shows "generate_email_subject row company_dna value_prop =
         generate_email_subject row (PStr (asc ''Mid-Market'')) value_prop"
  unfolding generate_email_subject_def subjects_def Let_def
  by (simp only: bundle_item_mid_market ebind_def sum.case bundle_fallback[OF assms])

lemma body_select_fallback:
  assumes "company_dna \<notin> PStr ` {asc ''High-Growth Startup'', asc ''Enterprise'',
             asc ''Mid-Market'', asc ''Agency/Consultancy''}"
  shows "ebind (dict_item (templates fn co pain vp sn) (asc ''Mid-Market''))
           (\<lambda>dflt. Inr (dict_get_val (templates fn co pain vp sn) company_dna dflt))
       = ebind (dict_item (templates fn co pain vp sn) (asc ''Mid-Market''))
           (\<lambda>dflt. Inr (dict_get_val (templates fn co pain vp sn) (PStr (asc ''Mid-Market''))
              dflt))"
  unfolding templates_def
  by (simp only: bundle_item_mid_market ebind_def sum.case bundle_fallback[OF assms])

lemma mid_market_pain: "pain_of (PStr (asc ''Mid-Market'')) = Inr (asc ''growing pains'')"
  unfolding pain_of_def COMPANY_DNA_PROFILES_def
  by (simp only: bundle_item_mid_market ebind_def sum.case dict_get_val_def pyval.case
        dict_get_def bundle_mid_market option.case)
     (simp add: index0_def)

lemma pain_fallback:
  assumes "company_dna \<notin> PStr ` {asc ''High-Growth Startup'', asc ''Enterprise'',
             asc ''Mid-Market'', asc ''Agency/Consultancy''}"
  shows "pain_of company_dna = pain_of (PStr (asc ''Mid-Market''))"
  unfolding pain_of_def COMPANY_DNA_PROFILES_def
  by (simp only: bundle_item_mid_market ebind_def sum.case bundle_fallback[OF assms])

lemma body_fallback:
  assumes "company_dna \<notin> PStr ` {asc ''High-Growth Startup'', asc ''Enterprise'',
             asc ''Mid-Market'', asc ''Agency/Consultancy''}"
  shows "generate_email_body row company_dna value_prop sender_name =
         generate_email_body row (PStr (asc ''Mid-Market'')) value_prop sender_name"
  unfolding generate_email_body_def Let_def
  by (simp only: pain_fallback[OF assms] body_select_fallback[OF assms])

lemma message_fallback:
  assumes "company_dna \<notin> PStr ` {asc ''High-Growth Startup'', asc ''Enterprise'',
             asc ''Mid-Market'', asc ''Agency/Consultancy''}"
  shows "generate_linkedin_message row company_dna value_prop =
         generate_linkedin_message row (PStr (asc ''Mid-Market'')) value_prop"
  unfolding generate_linkedin_message_def messages_def Let_def
  by (simp only: bundle_item_mid_market ebind_def sum.case bundle_fallback[OF assms])

lemma mid_market_subject:
  assumes "first_name_of row = Inr fn"
  shows "generate_email_subject row (PStr (asc ''Mid-Market'')) value_prop =
         Inr (py_str fn @ asc '' - '' @
              py_str (dict_get row (asc ''company'') (PStr (asc ''your team''))) @
              [39] @ asc ''s next growth lever'')"
  unfolding generate_email_subject_def subjects_def Let_def
  by (simp only: assms bundle_item_mid_market ebind_def sum.case dict_get_val_def pyval.case
        dict_get_def[of "map_of _"] bundle_mid_market option.case index0_def list.case)

section \<open>The Normalizer\<close>

lemma split_from_tokens: "t \<in> set (split_from cur s) \<Longrightarrow> t \<noteq> []"
  by (induction cur s rule: split_from.induct) (auto split: if_splits)

lemma split_from_nonempty:
  "cur \<noteq> [] \<or> list_ex (\<lambda>c. \<not> is_space c) s \<Longrightarrow> split_from cur s \<noteq> []"
  by (induction cur s rule: split_from.induct) auto

lemma py_split_first_token:
  assumes "list_ex (\<lambda>c. \<not> is_space c) s"
  shows "\<exists>t rest. py_split s = t # rest \<and> t \<noteq> []"
proof -
  have "py_split s \<noteq> []" using assms by (simp add: py_split_def split_from_nonempty)
  then obtain t rest where e: "py_split s = t # rest" by (cases "py_split s") auto
  then have "t \<in> set (split_from [] s)" by (simp add: py_split_def)
  then have "t \<noteq> []" by (rule split_from_tokens)
  then show ?thesis using e by blast
qed

lemma there_nonempty: "asc ''there'' \<noteq> []"
  by (simp add: asc_def)

lemma name_default_usable:
  assumes "name_usable (rd (asc ''name''))"
  shows "\<exists>nd. name_default rd = Inr (PStr nd) \<and> nd \<noteq> []
           \<and> ((case rd (asc ''name'') of None \<Rightarrow> True | Some v \<Rightarrow> \<not> py_truthy v)
                \<longrightarrow> nd = asc ''there'')
           \<and> (\<forall>s. rd (asc ''name'') = Some (PStr s) \<and> s \<noteq> []
                \<longrightarrow> (\<exists>rest. py_split s = nd # rest))"
proof (cases "case rd (asc ''name'') of None \<Rightarrow> False | Some v \<Rightarrow> py_truthy v")
  case False
  then have "name_default rd = Inr (PStr (asc ''there''))" by (simp add: name_default_def)
  moreover have "\<forall>s. \<not> (rd (asc ''name'') = Some (PStr s) \<and> s \<noteq> [])"
    using False by auto
  ultimately show ?thesis using there_nonempty by blast
next
  case True
  then obtain v where v: "rd (asc ''name'') = Some v" "py_truthy v"
    by (auto split: option.splits)
  then obtain s where s: "v = PStr s" "list_ex (\<lambda>c. \<not> is_space c) s"
    using assms by (auto simp: name_usable_def split: pyval.splits)
  from py_split_first_token[OF s(2)] obtain t rest where
    t: "py_split s = t # rest" "t \<noteq> []" by blast
  have "name_default rd = Inr (PStr t)"
    using True v s t by (simp add: name_default_def dict_get_def split_first_def)
  moreover have "\<not> (case rd (asc ''name'') of None \<Rightarrow> True | Some v \<Rightarrow> \<not> py_truthy v)"
    using v by simp
  moreover have "\<forall>s'. rd (asc ''name'') = Some (PStr s') \<and> s' \<noteq> []
                   \<longrightarrow> (\<exists>rest. py_split s' = t # rest)"
    using v s t by auto
  ultimately show ?thesis using t(2) by blast
qed

lemma chain2:
  "dict_get rd a (dict_get rd b d) = first_present rd [a, b] d"
  by (simp add: dict_get_def split: option.splits)

lemma chain3:
  "dict_get rd a (dict_get rd b (dict_get rd c d)) = first_present rd [a, b, c] d"
  by (simp add: dict_get_def split: option.splits)

lemma field_names_distinct:
  "distinct [asc ''first_name'', asc ''last_name'', asc ''company'', asc ''title'',
             asc ''email'', asc ''linkedin'', asc ''employees'', asc ''name'']"
  by (simp add: asc_def)

lemma lead_data_fields:
  assumes "name_default rd = Inr nd"
  shows "\<exists>ld. lead_data rd = Inr ld
     \<and> dom ld = {asc ''first_name'', asc ''last_name'', asc ''company'', asc ''title'',
                 asc ''email'', asc ''linkedin'', asc ''employees''}
     \<and> ld (asc ''first_name'') = Some (first_present rd [asc ''first_name'', asc ''firstname''] nd)
     \<and> ld (asc ''last_name'') =
         Some (first_present rd [asc ''last_name'', asc ''lastname''] (PStr []))
     \<and> ld (asc ''company'') =
         Some (first_present rd [asc ''company'', asc ''company_name'', asc ''organization'']
                 (PStr (asc ''Unknown'')))
     \<and> ld (asc ''title'') =
         Some (first_present rd [asc ''title'', asc ''job_title'', asc ''position''] (PStr []))
     \<and> ld (asc ''email'') =
         Some (first_present rd [asc ''email'', asc ''email_address''] (PStr []))
     \<and> ld (asc ''linkedin'') =
         Some (first_present rd [asc ''linkedin'', asc ''linkedin_url'', asc ''profile_url'']
                 (PStr []))
     \<and> ld (asc ''employees'') =
         Some (first_present rd [asc ''employees'', asc ''company_size'', asc ''size''] (PStr []))"
  apply (simp only: lead_data_def assms ebind_def sum.case chain3)
  apply (simp only: chain2)
  using field_names_distinct
  apply (simp del: first_present.simps)
  apply blast
  done

text \<open>
  C1, as the code has it.  The claim as stated fails: a \<open>name\<close> of blanks or a NaN
  \<open>name\<close> makes the Normalizer raise, and a present but empty or NaN value is passed on
  as it is, because the fallbacks act on missing keys only.  What holds: when the \<open>name\<close>
  value is absent, falsy, or a string with a character that is not white space, the
  Normalizer returns a lead with exactly the seven canonical fields, each the value of
  the first present key of its synonym chain and otherwise its default: the empty
  string, "Unknown" for the company, and for the first name the first token of a truthy
  name and else "there".  So without a \<open>first_name\<close> and \<open>firstname\<close> column the first
  name is a non-empty string, and without a company column the company is "Unknown".
\<close>

theorem normalize_fallbacks:
  "name_usable (row_dict items (asc ''name'')) \<longrightarrow>
   (\<exists>ld nd. normalize_row items = Inr ld
     \<and> dom ld = {asc ''first_name'', asc ''last_name'', asc ''company'', asc ''title'',
                 asc ''email'', asc ''linkedin'', asc ''employees''}
     \<and> nd \<noteq> []
     \<and> ((case row_dict items (asc ''name'') of None \<Rightarrow> True | Some v \<Rightarrow> \<not> py_truthy v)
          \<longrightarrow> nd = asc ''there'')
     \<and> (\<forall>s. row_dict items (asc ''name'') = Some (PStr s) \<and> s \<noteq> []
          \<longrightarrow> (\<exists>rest. py_split s = nd # rest))
     \<and> ld (asc ''first_name'') =
         Some (first_present (row_dict items) [asc ''first_name'', asc ''firstname''] (PStr nd))
     \<and> ld (asc ''last_name'') =
         Some (first_present (row_dict items) [asc ''last_name'', asc ''lastname''] (PStr []))
     \<and> ld (asc ''company'') =
         Some (first_present (row_dict items)
                 [asc ''company'', asc ''company_name'', asc ''organization'']
                 (PStr (asc ''Unknown'')))
     \<and> ld (asc ''title'') =
         Some (first_present (row_dict items)
                 [asc ''title'', asc ''job_title'', asc ''position''] (PStr []))
     \<and> ld (asc ''email'') =
         Some (first_present (row_dict items) [asc ''email'', asc ''email_address''] (PStr []))
     \<and> ld (asc ''linkedin'') =
         Some (first_present (row_dict items)
                 [asc ''linkedin'', asc ''linkedin_url'', asc ''profile_url''] (PStr []))
     \<and> ld (asc ''employees'') =
         Some (first_present (row_dict items)
                 [asc ''employees'', asc ''company_size'', asc ''size''] (PStr []))
     \<and> (row_dict items (asc ''first_name'') = None \<and> row_dict items (asc ''firstname'') = None
          \<longrightarrow> ld (asc ''first_name'') = Some (PStr nd))
     \<and> (row_dict items (asc ''company'') = None \<and> row_dict items (asc ''company_name'') = None
          \<and> row_dict items (asc ''organization'') = None
          \<longrightarrow> ld (asc ''company'') = Some (PStr (asc ''Unknown''))))"
proof
  assume "name_usable (row_dict items (asc ''name''))"
  from name_default_usable[of "row_dict items", OF this] obtain nd where
    nd: "name_default (row_dict items) = Inr (PStr nd)" "nd \<noteq> []"
      "(case row_dict items (asc ''name'') of None \<Rightarrow> True | Some v \<Rightarrow> \<not> py_truthy v)
          \<longrightarrow> nd = asc ''there''"
      "\<forall>s. row_dict items (asc ''name'') = Some (PStr s) \<and> s \<noteq> []
          \<longrightarrow> (\<exists>rest. py_split s = nd # rest)"
    by blast
  from lead_data_fields[of "row_dict items", OF nd(1)] obtain ld where
    ld: "lead_data (row_dict items) = Inr ld"
      "dom ld = {asc ''first_name'', asc ''last_name'', asc ''company'', asc ''title'',
                 asc ''email'', asc ''linkedin'', asc ''employees''}"
      "ld (asc ''first_name'') =
         Some (first_present (row_dict items) [asc ''first_name'', asc ''firstname''] (PStr nd))"
      "ld (asc ''last_name'') =
         Some (first_present (row_dict items) [asc ''last_name'', asc ''lastname''] (PStr []))"
      "ld (asc ''company'') =
         Some (first_present (row_dict items)
                 [asc ''company'', asc ''company_name'', asc ''organization'']
                 (PStr (asc ''Unknown'')))"
      "ld (asc ''title'') =
         Some (first_present (row_dict items)
                 [asc ''title'', asc ''job_title'', asc ''position''] (PStr []))"
      "ld (asc ''email'') =
         Some (first_present (row_dict items) [asc ''email'', asc ''email_address''] (PStr []))"
      "ld (asc ''linkedin'') =
         Some (first_present (row_dict items)
                 [asc ''linkedin'', asc ''linkedin_url'', asc ''profile_url''] (PStr []))"
      "ld (asc ''employees'') =
         Some (first_present (row_dict items)
                 [asc ''employees'', asc ''company_size'', asc ''size''] (PStr []))"
    by blast
  have n: "normalize_row items = Inr ld" by (simp add: normalize_row_def ld(1))
  have f: "row_dict items (asc ''first_name'') = None \<and> row_dict items (asc ''firstname'') = None
          \<longrightarrow> ld (asc ''first_name'') = Some (PStr nd)"
    by (simp add: ld(3))
  have c: "row_dict items (asc ''company'') = None \<and> row_dict items (asc ''company_name'') = None
          \<and> row_dict items (asc ''organization'') = None
          \<longrightarrow> ld (asc ''company'') = Some (PStr (asc ''Unknown''))"
    by (simp add: ld(5))
  show "\<exists>ld nd. normalize_row items = Inr ld
     \<and> dom ld = {asc ''first_name'', asc ''last_name'', asc ''company'', asc ''title'',
                 asc ''email'', asc ''linkedin'', asc ''employees''}
     \<and> nd \<noteq> []
     \<and> ((case row_dict items (asc ''name'') of None \<Rightarrow> True | Some v \<Rightarrow> \<not> py_truthy v)
          \<longrightarrow> nd = asc ''there'')
     \<and> (\<forall>s. row_dict items (asc ''name'') = Some (PStr s) \<and> s \<noteq> []
          \<longrightarrow> (\<exists>rest. py_split s = nd # rest))
     \<and> ld (asc ''first_name'') =
         Some (first_present (row_dict items) [asc ''first_name'', asc ''firstname''] (PStr nd))
     \<and> ld (asc ''last_name'') =
         Some (first_present (row_dict items) [asc ''last_name'', asc ''lastname''] (PStr []))
     \<and> ld (asc ''company'') =
         Some (first_present (row_dict items)
                 [asc ''company'', asc ''company_name'', asc ''organization'']
                 (PStr (asc ''Unknown'')))
     \<and> ld (asc ''title'') =
         Some (first_present (row_dict items)
                 [asc ''title'', asc ''job_title'', asc ''position''] (PStr []))
     \<and> ld (asc ''email'') =
         Some (first_present (row_dict items) [asc ''email'', asc ''email_address''] (PStr []))
     \<and> ld (asc ''linkedin'') =
         Some (first_present (row_dict items)
                 [asc ''linkedin'', asc ''linkedin_url'', asc ''profile_url''] (PStr []))
     \<and> ld (asc ''employees'') =
         Some (first_present (row_dict items)
                 [asc ''employees'', asc ''company_size'', asc ''size''] (PStr []))
     \<and> (row_dict items (asc ''first_name'') = None \<and> row_dict items (asc ''firstname'') = None
          \<longrightarrow> ld (asc ''first_name'') = Some (PStr nd))
     \<and> (row_dict items (asc ''company'') = None \<and> row_dict items (asc ''company_name'') = None
          \<and> row_dict items (asc ''organization'') = None
          \<longrightarrow> ld (asc ''company'') = Some (PStr (asc ''Unknown'')))"
    apply (rule exI[of _ ld])
    apply (rule exI[of _ nd])
    using n ld(2-9) nd(2-4) f c
    apply (intro conjI)
    apply assumption+
    done
qed

lemmas row_eval = row_dict_def norm_key_def py_lower_def lower_char_def asc_def

theorem normalize_fallbacks_witness:
  "name_usable (row_dict [(asc ''Name'', PStr (asc ''Jane Doe'')),
                          (asc ''Company Name'', PStr (asc ''Acme''))] (asc ''name''))
   \<and> lead_field (normalize_row [(asc ''Name'', PStr (asc ''Jane Doe'')),
                             (asc ''Company Name'', PStr (asc ''Acme''))]) (asc ''first_name'')
       = Some (PStr (asc ''Jane''))
   \<and> lead_field (normalize_row [(asc ''Name'', PStr (asc ''Jane Doe'')),
                             (asc ''Company Name'', PStr (asc ''Acme''))]) (asc ''company'')
       = Some (PStr (asc ''Acme''))
   \<and> name_usable (row_dict [] (asc ''name''))
   \<and> lead_field (normalize_row []) (asc ''first_name'') = Some (PStr (asc ''there''))
   \<and> lead_field (normalize_row []) (asc ''company'') = Some (PStr (asc ''Unknown''))"
proof -
  let ?items = "[(asc ''Name'', PStr (asc ''Jane Doe'')),
                 (asc ''Company Name'', PStr (asc ''Acme''))]"
  have rn: "row_dict ?items (asc ''name'') = Some (PStr (asc ''Jane Doe''))"
    by (simp add: row_eval)
  have rf: "row_dict ?items (asc ''first_name'') = None"
           "row_dict ?items (asc ''firstname'') = None"
    by (simp_all add: row_eval)
  have rc: "row_dict ?items (asc ''company'') = None"
           "row_dict ?items (asc ''company_name'') = Some (PStr (asc ''Acme''))"
    by (simp_all add: row_eval)
  have u1: "name_usable (row_dict ?items (asc ''name''))"
    unfolding rn by (simp add: name_usable_def is_space_def asc_def)
  have sp: "py_split (asc ''Jane Doe'') = [asc ''Jane'', asc ''Doe'']"
    by (simp add: py_split_def is_space_def asc_def)
  have ne: "asc ''Jane Doe'' \<noteq> []" by (simp add: asc_def)
  from normalize_fallbacks [of ?items] u1 obtain ld nd where
    a: "normalize_row ?items = Inr ld"
       "\<forall>s. row_dict ?items (asc ''name'') = Some (PStr s) \<and> s \<noteq> []
          \<longrightarrow> (\<exists>rest. py_split s = nd # rest)"
       "row_dict ?items (asc ''first_name'') = None \<and> row_dict ?items (asc ''firstname'') = None
          \<longrightarrow> ld (asc ''first_name'') = Some (PStr nd)"
       "ld (asc ''company'') =
         Some (first_present (row_dict ?items)
                 [asc ''company'', asc ''company_name'', asc ''organization'']
                 (PStr (asc ''Unknown'')))"
    by blast
  from a(2) rn ne obtain rest where "py_split (asc ''Jane Doe'') = nd # rest" by blast
  then have nd: "nd = asc ''Jane''" unfolding sp by simp
  have p1: "lead_field (normalize_row ?items) (asc ''first_name'') = Some (PStr (asc ''Jane''))"
    using a(1) a(3) rf nd by (simp add: lead_field_def)
  have p2: "lead_field (normalize_row ?items) (asc ''company'') = Some (PStr (asc ''Acme''))"
    using a(1) a(4) rc by (simp add: lead_field_def)
  have e: "row_dict [] k = None" for k by (simp add: row_dict_def)
  have u2: "name_usable (row_dict [] (asc ''name''))" by (simp add: e name_usable_def)
  from normalize_fallbacks [of "[]"] u2 obtain ld0 nd0 where
    b: "normalize_row [] = Inr ld0"
       "(case row_dict [] (asc ''name'') of None \<Rightarrow> True | Some v \<Rightarrow> \<not> py_truthy v)
          \<longrightarrow> nd0 = asc ''there''"
       "row_dict [] (asc ''first_name'') = None \<and> row_dict [] (asc ''firstname'') = None
          \<longrightarrow> ld0 (asc ''first_name'') = Some (PStr nd0)"
       "row_dict [] (asc ''company'') = None \<and> row_dict [] (asc ''company_name'') = None
          \<and> row_dict [] (asc ''organization'') = None
          \<longrightarrow> ld0 (asc ''company'') = Some (PStr (asc ''Unknown''))"
    by blast
  have p3: "lead_field (normalize_row []) (asc ''first_name'') = Some (PStr (asc ''there''))"
    using b(1) b(2) b(3) by (simp add: lead_field_def e)
  have p4: "lead_field (normalize_row []) (asc ''company'') = Some (PStr (asc ''Unknown''))"
    using b(1) b(4) by (simp add: lead_field_def e)
  show ?thesis using u1 u2 p1 p2 p3 p4 by blast
qed

theorem normalize_counterexample:
  "normalize_row [(asc ''name'', PStr (asc ''   ''))] = Inl IndexError
   \<and> normalize_row [(asc ''name'', PNaN)] = Inl AttributeError
   \<and> lead_field (normalize_row [(asc ''first_name'', PStr [])]) (asc ''first_name'') = Some (PStr [])
   \<and> lead_field (normalize_row [(asc ''first_name'', PNaN)]) (asc ''first_name'') = Some PNaN
   \<and> lead_field (normalize_row [(asc ''company'', PStr [])]) (asc ''company'') = Some (PStr [])"
proof (intro conjI)
  show "normalize_row [(asc ''name'', PStr (asc ''   ''))] = Inl IndexError"
    by (simp add: normalize_row_def lead_data_def name_default_def dict_get_def split_first_def
          py_split_def is_space_def ebind_def row_eval)
  show "normalize_row [(asc ''name'', PNaN)] = Inl AttributeError"
    by (simp add: normalize_row_def lead_data_def name_default_def dict_get_def split_first_def
          ebind_def row_eval)
  show "lead_field (normalize_row [(asc ''first_name'', PStr [])]) (asc ''first_name'')
        = Some (PStr [])"
    by (simp add: lead_field_def normalize_row_def lead_data_def name_default_def dict_get_def
          ebind_def row_eval)
  show "lead_field (normalize_row [(asc ''first_name'', PNaN)]) (asc ''first_name'') = Some PNaN"
    by (simp add: lead_field_def normalize_row_def lead_data_def name_default_def dict_get_def
          ebind_def row_eval)
  show "lead_field (normalize_row [(asc ''company'', PStr [])]) (asc ''company'') = Some (PStr [])"
    by (simp add: lead_field_def normalize_row_def lead_data_def name_default_def dict_get_def
          ebind_def row_eval)
qed

section \<open>The batch runner\<close>

lemma ebind_Inr_iff: "ebind m f = Inr y \<longleftrightarrow> (\<exists>x. m = Inr x \<and> f x = Inr y)"
  by (cases m) (auto simp: ebind_def)

lemma process_leads_loop_iff:
  "process_leads_loop df value_prop sender_name auto_detect_dna results = Inr rs \<longleftrightarrow>
     (\<exists>new. rs = results @ new \<and>
        map (\<lambda>items. process_row items value_prop sender_name auto_detect_dna) df = map Inr new)"
proof (induction df arbitrary: results rs)
  case Nil
  then show ?case by auto
next
  case (Cons items rest)
  show ?case
  proof
    assume "process_leads_loop (items # rest) value_prop sender_name auto_detect_dna results
            = Inr rs"
    then obtain r where r: "process_row items value_prop sender_name auto_detect_dna = Inr r"
      and "process_leads_loop rest value_prop sender_name auto_detect_dna (results @ [r]) = Inr rs"
      by (auto simp: ebind_Inr_iff)
    then obtain new where "rs = (results @ [r]) @ new"
      "map (\<lambda>items. process_row items value_prop sender_name auto_detect_dna) rest = map Inr new"
      using Cons.IH by blast
    then have "rs = results @ (r # new) \<and>
        map (\<lambda>items. process_row items value_prop sender_name auto_detect_dna) (items # rest)
        = map Inr (r # new)"
      using r by simp
    then show "\<exists>new. rs = results @ new \<and>
        map (\<lambda>items. process_row items value_prop sender_name auto_detect_dna) (items # rest)
        = map Inr new"
      by blast
  next
    assume "\<exists>new. rs = results @ new \<and>
        map (\<lambda>items. process_row items value_prop sender_name auto_detect_dna) (items # rest)
        = map Inr new"
    then obtain new where n: "rs = results @ new"
      "map (\<lambda>items. process_row items value_prop sender_name auto_detect_dna) (items # rest)
        = map Inr new"
      by blast
    then obtain r new' where new: "new = r # new'"
      and r: "process_row items value_prop sender_name auto_detect_dna = Inr r"
      and rest: "map (\<lambda>items. process_row items value_prop sender_name auto_detect_dna) rest
                 = map Inr new'"
      by (cases new) auto
    have "rs = (results @ [r]) @ new'" using n(1) new by simp
    then have "process_leads_loop rest value_prop sender_name auto_detect_dna (results @ [r])
               = Inr rs"
      using Cons.IH rest by blast
    then show "process_leads_loop (items # rest) value_prop sender_name auto_detect_dna results
               = Inr rs"
      using r by (simp add: ebind_def)
  qed
qed

lemma process_leads_iff:
  "process_leads df value_prop sender_name auto_detect_dna = Inr rs \<longleftrightarrow>
     map (\<lambda>items. process_row items value_prop sender_name auto_detect_dna) df = map Inr rs"
  by (simp add: process_leads_def process_leads_loop_iff)

text \<open>When \<open>process_leads\<close> returns, the result has one row for each input row, in the
  order of the input, and each is the result of its own input row.\<close>

lemma process_leads_rows:
  assumes "process_leads df value_prop sender_name auto_detect_dna = Inr rs"
  shows "length rs = length df"
    and "i < length df \<Longrightarrow>
           process_row (df ! i) value_prop sender_name auto_detect_dna = Inr (rs ! i)"
proof -
  have m: "map (\<lambda>items. process_row items value_prop sender_name auto_detect_dna) df
           = map Inr rs"
    using assms by (simp add: process_leads_iff)
  then show l: "length rs = length df" by (metis length_map)
  assume "i < length df"
  then show "process_row (df ! i) value_prop sender_name auto_detect_dna = Inr (rs ! i)"
    using m l by (metis nth_map)
qed

text \<open>The result row of an input row depends on that row and on the three parameters
  only: when two calls with the same parameters return, equal input rows have equal
  result rows, whatever the other rows and the positions are.\<close>

lemma process_leads_same_record:
  assumes "process_leads df1 value_prop sender_name auto_detect_dna = Inr rs1"
    and "process_leads df2 value_prop sender_name auto_detect_dna = Inr rs2"
    and "i < length df1" and "j < length df2" and "df1 ! i = df2 ! j"
  shows "rs1 ! i = rs2 ! j"
proof -
  have "process_row (df1 ! i) value_prop sender_name auto_detect_dna = Inr (rs1 ! i)"
    using assms(1,3) by (rule process_leads_rows(2))
  moreover have "process_row (df2 ! j) value_prop sender_name auto_detect_dna = Inr (rs2 ! j)"
    using assms(2,4) by (rule process_leads_rows(2))
  ultimately show ?thesis using assms(5) by simp
qed

lemma bundle_get_prop:
  assumes "P a" "P b" "P c" "P d"
  shows "P (dict_get_val
              (map_of [(asc ''High-Growth Startup'', a), (asc ''Enterprise'', b),
                       (asc ''Mid-Market'', c), (asc ''Agency/Consultancy'', d)])
              company_dna c)"
  using assms by (cases company_dna) (auto simp: dict_get_val_def dict_get_def)

lemma subject_returns:
  assumes "first_name_of row = Inr fn"
  shows "\<exists>x. generate_email_subject row company_dna value_prop = Inr x"
  unfolding generate_email_subject_def subjects_def Let_def
  apply (simp only: assms bundle_item_mid_market ebind_def sum.case)
  apply (rule bundle_get_prop[where P = "\<lambda>l. \<exists>x. index0 l = Inr x"])
  apply (simp_all add: index0_def)
  done

lemma pain_returns: "\<exists>x. pain_of company_dna = Inr x"
  unfolding pain_of_def COMPANY_DNA_PROFILES_def
  apply (simp only: bundle_item_mid_market ebind_def sum.case)
  apply (rule bundle_get_prop[where P = "\<lambda>p. \<exists>x. index0 (pain_points p) = Inr x"])
  apply (simp_all add: index0_def)
  done

lemma body_returns:
  assumes "first_name_of row = Inr fn"
  shows "\<exists>x. generate_email_body row company_dna value_prop sender_name = Inr x"
proof -
  obtain pain where p: "pain_of company_dna = Inr pain" using pain_returns by blast
  show ?thesis
    unfolding generate_email_body_def templates_def Let_def
    by (simp only: assms p bundle_item_mid_market ebind_def sum.case) blast
qed

lemma message_returns:
  assumes "first_name_of row = Inr fn"
  shows "\<exists>x. generate_linkedin_message row company_dna value_prop = Inr x"
  using generate_linkedin_message_unfold[OF assms] by blast

text \<open>A row whose \<open>name\<close> value has a first token, or needs none, is processed without an
  exception.\<close>

lemma process_row_returns:
  assumes "name_usable (row_dict items (asc ''name''))"
  shows "\<exists>r. process_row items value_prop sender_name auto_detect_dna = Inr r"
proof -
  from name_default_usable[of "row_dict items", OF assms] obtain nd where
    "name_default (row_dict items) = Inr (PStr nd)" by blast
  from lead_data_fields[of "row_dict items", OF this] obtain ld where
    ld: "lead_data (row_dict items) = Inr ld"
    and d: "dom ld = {asc ''first_name'', asc ''last_name'', asc ''company'', asc ''title'',
                     asc ''email'', asc ''linkedin'', asc ''employees''}"
    by blast
  have "asc ''name'' \<notin> dom ld" unfolding d using field_names_distinct by auto
  then have "ld (asc ''name'') = None" by blast
  then obtain fn where fn: "first_name_of ld = Inr fn" using first_name_of_no_name by blast
  have k: "\<exists>v. dict_item ld k = Inr v" if "k \<in> dom ld" for k
    using that by (auto simp: dict_item_def)
  obtain v1 where v1: "dict_item ld (asc ''first_name'') = Inr v1" using k d by blast
  obtain v2 where v2: "dict_item ld (asc ''last_name'') = Inr v2" using k d by blast
  obtain v3 where v3: "dict_item ld (asc ''company'') = Inr v3" using k d by blast
  obtain v4 where v4: "dict_item ld (asc ''title'') = Inr v4" using k d by blast
  obtain v5 where v5: "dict_item ld (asc ''email'') = Inr v5" using k d by blast
  obtain v6 where v6: "dict_item ld (asc ''linkedin'') = Inr v6" using k d by blast
  let ?dna = "company_dna_of auto_detect_dna (row_dict items) ld"
  obtain s where s: "generate_email_subject ld ?dna value_prop = Inr s"
    using subject_returns[OF fn] by blast
  obtain b where b: "generate_email_body ld ?dna value_prop sender_name = Inr b"
    using body_returns[OF fn] by blast
  obtain m where m: "generate_linkedin_message ld ?dna value_prop = Inr m"
    using message_returns[OF fn] by blast
  show ?thesis
    unfolding process_row_def Let_def
    by (simp only: ld v1 v2 v3 v4 v5 v6 s b m ebind_def sum.case) blast
qed

text \<open>So a table in which every row has such a \<open>name\<close> value gives a table with as many
  rows.\<close>

lemma process_leads_returns:
  assumes "\<forall>items \<in> set df. name_usable (row_dict items (asc ''name''))"
  shows "\<exists>rs. process_leads df value_prop sender_name auto_detect_dna = Inr rs
              \<and> length rs = length df"
proof -
  have "\<exists>new. map (\<lambda>items. process_row items value_prop sender_name auto_detect_dna) df
             = map Inr new"
    using assms
  proof (induction df)
    case Nil
    then show ?case by simp
  next
    case (Cons items rest)
    then obtain new where
      n: "map (\<lambda>items. process_row items value_prop sender_name auto_detect_dna) rest
          = map Inr new"
      by auto
    obtain r where "process_row items value_prop sender_name auto_detect_dna = Inr r"
      using process_row_returns Cons.prems by fastforce
    then have "map (\<lambda>items. process_row items value_prop sender_name auto_detect_dna)
                 (items # rest) = map Inr (r # new)"
      using n by simp
    then show ?case by blast
  qed
  then obtain rs where
    "map (\<lambda>items. process_row items value_prop sender_name auto_detect_dna) df = map Inr rs"
    by blast
  then have r: "process_leads df value_prop sender_name auto_detect_dna = Inr rs"
    by (simp add: process_leads_iff)
  then show ?thesis using process_leads_rows(1) by blast
qed

lemma blank_name_raises:
  "lead_data (row_dict [(asc ''name'', PStr (asc ''   ''))]) = Inl IndexError"
  by (simp add: lead_data_def name_default_def dict_get_def split_first_def
        py_split_def is_space_def ebind_def row_eval)

lemma nan_name_raises:
  "lead_data (row_dict [(asc ''name'', PNaN), (asc ''company'', PStr (asc ''Acme''))])
   = Inl AttributeError"
  by (simp add: lead_data_def name_default_def dict_get_def split_first_def ebind_def row_eval)

text \<open>
  C7.  The claim fails on the code where a row makes the Normalizer raise: for a table
  whose one row has a \<open>name\<close> of blanks, and for one whose row has a NaN \<open>name\<close> (an empty
  cell of a \<open>name\<close> column), \<open>process_leads\<close> raises and returns no table at all.  Where it
  returns, the rows correspond one to one and in order (\<open>process_leads_rows\<close>), and it
  returns whenever every \<open>name\<close> value has a first token or needs none
  (\<open>process_leads_returns\<close>).
\<close>

theorem process_leads_raises:
  "process_leads [[(asc ''name'', PStr (asc ''   ''))]] value_prop sender_name auto_detect_dna
     = Inl IndexError
   \<and> process_leads [[(asc ''name'', PNaN), (asc ''company'', PStr (asc ''Acme''))]]
       value_prop sender_name auto_detect_dna
     = Inl AttributeError"
  by (simp only: process_leads_def process_leads_loop.simps process_row_def Let_def
        blank_name_raises nan_name_raises ebind_def sum.case simp_thms)

lemma mid_market_body:
  assumes "first_name_of row = Inr fn"
  shows "generate_email_body row (PStr (asc ''Mid-Market'')) value_prop sender_name =
         Inr (asc ''Hi '' @ py_str fn @ asc '','' @ [nl, nl] @ asc ''Quick note '' @
              [emdash] @ asc '' I work with mid-market companies like '' @
              py_str (dict_get row (asc ''company'') (PStr (asc ''your company''))) @
              asc '' on '' @ value_prop @ asc ''.'' @ [nl, nl] @
              asc ''The common challenge I see: '' @ asc ''growing pains'' @
              asc ''. The solution doesn't have to be complex.'' @ [nl, nl] @
              asc ''If this resonates, I'd love to share a framework that's helped similar teams. 15 minutes '' @
              [emdash] @ asc '' no pitch, just value.'' @ [nl, nl] @ asc ''Best,'' @ [nl] @
              sender_name)"
  unfolding generate_email_body_def templates_def Let_def
  by (simp only: assms mid_market_pain bundle_item_mid_market ebind_def sum.case
        dict_get_val_def pyval.case dict_get_def[of "map_of _"] bundle_mid_market option.case)

lemma mid_market_message:
  assumes "first_name_of row = Inr fn"
  shows "generate_linkedin_message row (PStr (asc ''Mid-Market'')) value_prop =
         Inr (truncate_msg
             (asc ''Hi '' @ py_str fn @ asc '' '' @ [emdash] @ asc '' '' @
              py_str (dict_get row (asc ''company'') (PStr (asc ''your company''))) @
              asc '' looks like a great fit for some ideas I have on '' @ value_prop @
              asc ''. Would love to connect.''))"
  unfolding generate_linkedin_message_def messages_def Let_def
  by (simp only: assms bundle_item_mid_market ebind_def sum.case
        dict_get_val_def pyval.case dict_get_def[of "map_of _"] bundle_mid_market option.case)

text \<open>What a result row holds.\<close>

lemma process_row_scripts:
  assumes "process_row items value_prop sender_name auto_detect_dna = Inr r"
  shows "\<exists>ld. normalize_row items = Inr ld
     \<and> Company_DNA r = company_dna_of auto_detect_dna (row_dict items) ld
     \<and> Priority r = assign_priority ld
     \<and> generate_email_subject ld (Company_DNA r) value_prop = Inr (Email_Subject r)
     \<and> generate_email_body ld (Company_DNA r) value_prop sender_name = Inr (Email_Body r)
     \<and> generate_linkedin_message ld (Company_DNA r) value_prop = Inr (LinkedIn_Message r)
     \<and> ld (asc ''first_name'') = Some (First_Name r)
     \<and> ld (asc ''last_name'') = Some (Last_Name r)
     \<and> ld (asc ''company'') = Some (Company r)
     \<and> ld (asc ''title'') = Some (Title r)
     \<and> ld (asc ''email'') = Some (Email r)
     \<and> ld (asc ''linkedin'') = Some (LinkedIn r)"
  using assms unfolding process_row_def Let_def normalize_row_def
  by (auto simp: ebind_Inr_iff dict_item_def split: option.splits)

text \<open>
  C6.  For an archetype value that is none of the four known names, whether a string or
  any other scalar, the three generators return exactly what they return for
  "Mid-Market", and the pain point is the first one of the Mid-Market profile, "growing
  pains".  With auto-detection off and no \<open>company_dna\<close> column, the archetype of the row
  is "Mid-Market" itself.  Written out, for a row whose first name is found, the outputs for
  such an archetype value are the first Mid-Market subject template, the Mid-Market body
  template with the pain point "growing pains", and the Mid-Market connection template
  under the length rule, each rendered with the first name, the company, the value
  proposition and the sender of the call.  So
  a result row of \<open>process_leads\<close> without auto-detection whose \<open>company_dna\<close> value is
  absent or unknown carries the Mid-Market subject, body and connection message of its
  lead.
\<close>

theorem unknown_archetype_is_mid_market:
  "(company_dna \<notin> PStr ` {asc ''High-Growth Startup'', asc ''Enterprise'',
                            asc ''Mid-Market'', asc ''Agency/Consultancy''} \<longrightarrow>
      generate_email_subject row company_dna value_prop =
        generate_email_subject row (PStr (asc ''Mid-Market'')) value_prop
      \<and> generate_email_body row company_dna value_prop sender_name =
        generate_email_body row (PStr (asc ''Mid-Market'')) value_prop sender_name
      \<and> generate_linkedin_message row company_dna value_prop =
        generate_linkedin_message row (PStr (asc ''Mid-Market'')) value_prop
      \<and> pain_of company_dna = Inr (asc ''growing pains''))
   \<and> (rd (asc ''company_dna'') = None \<longrightarrow>
        company_dna_of False rd row = PStr (asc ''Mid-Market''))
   \<and> (first_name_of row = Inr fn \<longrightarrow>
        generate_email_subject row (PStr (asc ''Mid-Market'')) value_prop =
          Inr (py_str fn @ asc '' - '' @
               py_str (dict_get row (asc ''company'') (PStr (asc ''your team''))) @
               [39] @ asc ''s next growth lever''))
   \<and> (company_dna \<notin> PStr ` {asc ''High-Growth Startup'', asc ''Enterprise'',
                             asc ''Mid-Market'', asc ''Agency/Consultancy''}
        \<and> first_name_of row = Inr fn \<longrightarrow>
        generate_email_subject row company_dna value_prop =
          Inr (py_str fn @ asc '' - '' @
               py_str (dict_get row (asc ''company'') (PStr (asc ''your team''))) @
               [39] @ asc ''s next growth lever'')
        \<and> generate_email_body row company_dna value_prop sender_name =
          Inr (asc ''Hi '' @ py_str fn @ asc '','' @ [nl, nl] @ asc ''Quick note '' @
              [emdash] @ asc '' I work with mid-market companies like '' @
              py_str (dict_get row (asc ''company'') (PStr (asc ''your company''))) @
              asc '' on '' @ value_prop @ asc ''.'' @ [nl, nl] @
              asc ''The common challenge I see: '' @ asc ''growing pains'' @
              asc ''. The solution doesn't have to be complex.'' @ [nl, nl] @
              asc ''If this resonates, I'd love to share a framework that's helped similar teams. 15 minutes '' @
              [emdash] @ asc '' no pitch, just value.'' @ [nl, nl] @ asc ''Best,'' @ [nl] @
              sender_name)
        \<and> (\<exists>msg. msg =
              asc ''Hi '' @ py_str fn @ asc '' '' @ [emdash] @ asc '' '' @
              py_str (dict_get row (asc ''company'') (PStr (asc ''your company''))) @
              asc '' looks like a great fit for some ideas I have on '' @ value_prop @
              asc ''. Would love to connect.''
           \<and> generate_linkedin_message row company_dna value_prop =
               Inr (if length msg > 300 then take 295 msg @ asc ''...'' else msg)))
   \<and> (process_row items value_prop sender_name False = Inr r
        \<and> (case row_dict items (asc ''company_dna'') of
              None \<Rightarrow> True
            | Some u \<Rightarrow> u \<notin> PStr ` {asc ''High-Growth Startup'', asc ''Enterprise'',
                                    asc ''Mid-Market'', asc ''Agency/Consultancy''}) \<longrightarrow>
        (\<exists>ld. normalize_row items = Inr ld
           \<and> generate_email_subject ld (PStr (asc ''Mid-Market'')) value_prop
               = Inr (Email_Subject r)
           \<and> generate_email_body ld (PStr (asc ''Mid-Market'')) value_prop sender_name
               = Inr (Email_Body r)
           \<and> generate_linkedin_message ld (PStr (asc ''Mid-Market'')) value_prop
               = Inr (LinkedIn_Message r)))"
proof (intro conjI impI)
  assume a: "company_dna \<notin> PStr ` {asc ''High-Growth Startup'', asc ''Enterprise'',
                            asc ''Mid-Market'', asc ''Agency/Consultancy''}"
  show "generate_email_subject row company_dna value_prop =
        generate_email_subject row (PStr (asc ''Mid-Market'')) value_prop"
    using a by (rule subject_fallback)
  show "generate_email_body row company_dna value_prop sender_name =
        generate_email_body row (PStr (asc ''Mid-Market'')) value_prop sender_name"
    using a by (rule body_fallback)
  show "generate_linkedin_message row company_dna value_prop =
        generate_linkedin_message row (PStr (asc ''Mid-Market'')) value_prop"
    using a by (rule message_fallback)
  show "pain_of company_dna = Inr (asc ''growing pains'')"
    by (simp only: pain_fallback[OF a] mid_market_pain)
next
  assume "rd (asc ''company_dna'') = None"
  then show "company_dna_of False rd row = PStr (asc ''Mid-Market'')"
    by (simp add: company_dna_of_def dict_get_def)
next
  assume "first_name_of row = Inr fn"
  then show "generate_email_subject row (PStr (asc ''Mid-Market'')) value_prop =
          Inr (py_str fn @ asc '' - '' @
               py_str (dict_get row (asc ''company'') (PStr (asc ''your team''))) @
               [39] @ asc ''s next growth lever'')"
    by (rule mid_market_subject)
next
  assume a: "company_dna \<notin> PStr ` {asc ''High-Growth Startup'', asc ''Enterprise'',
                             asc ''Mid-Market'', asc ''Agency/Consultancy''}
        \<and> first_name_of row = Inr fn"
  then have u: "company_dna \<notin> PStr ` {asc ''High-Growth Startup'', asc ''Enterprise'',
                             asc ''Mid-Market'', asc ''Agency/Consultancy''}"
    and f: "first_name_of row = Inr fn"
    by blast+
  show "generate_email_subject row company_dna value_prop =
          Inr (py_str fn @ asc '' - '' @
               py_str (dict_get row (asc ''company'') (PStr (asc ''your team''))) @
               [39] @ asc ''s next growth lever'')"
    by (simp only: subject_fallback[OF u] mid_market_subject[OF f])
  show "generate_email_body row company_dna value_prop sender_name =
          Inr (asc ''Hi '' @ py_str fn @ asc '','' @ [nl, nl] @ asc ''Quick note '' @
              [emdash] @ asc '' I work with mid-market companies like '' @
              py_str (dict_get row (asc ''company'') (PStr (asc ''your company''))) @
              asc '' on '' @ value_prop @ asc ''.'' @ [nl, nl] @
              asc ''The common challenge I see: '' @ asc ''growing pains'' @
              asc ''. The solution doesn't have to be complex.'' @ [nl, nl] @
              asc ''If this resonates, I'd love to share a framework that's helped similar teams. 15 minutes '' @
              [emdash] @ asc '' no pitch, just value.'' @ [nl, nl] @ asc ''Best,'' @ [nl] @
              sender_name)"
    by (simp only: body_fallback[OF u] mid_market_body[OF f])
  show "\<exists>msg. msg =
              asc ''Hi '' @ py_str fn @ asc '' '' @ [emdash] @ asc '' '' @
              py_str (dict_get row (asc ''company'') (PStr (asc ''your company''))) @
              asc '' looks like a great fit for some ideas I have on '' @ value_prop @
              asc ''. Would love to connect.''
           \<and> generate_linkedin_message row company_dna value_prop =
               Inr (if length msg > 300 then take 295 msg @ asc ''...'' else msg)"
    by (simp only: message_fallback[OF u] mid_market_message[OF f] truncate_msg_def) blast
next
  assume a: "process_row items value_prop sender_name False = Inr r
        \<and> (case row_dict items (asc ''company_dna'') of
              None \<Rightarrow> True
            | Some u \<Rightarrow> u \<notin> PStr ` {asc ''High-Growth Startup'', asc ''Enterprise'',
                                    asc ''Mid-Market'', asc ''Agency/Consultancy''})"
  then obtain ld where ld: "normalize_row items = Inr ld"
      "Company_DNA r = company_dna_of False (row_dict items) ld"
      "generate_email_subject ld (Company_DNA r) value_prop = Inr (Email_Subject r)"
      "generate_email_body ld (Company_DNA r) value_prop sender_name = Inr (Email_Body r)"
      "generate_linkedin_message ld (Company_DNA r) value_prop = Inr (LinkedIn_Message r)"
    using process_row_scripts[of items value_prop sender_name False r] by blast
  have "Company_DNA r = PStr (asc ''Mid-Market'') \<or>
        Company_DNA r \<notin> PStr ` {asc ''High-Growth Startup'', asc ''Enterprise'',
                                  asc ''Mid-Market'', asc ''Agency/Consultancy''}"
    using a ld(2) by (auto simp: company_dna_of_def dict_get_def split: option.splits)
  then have "generate_email_subject ld (Company_DNA r) value_prop
               = generate_email_subject ld (PStr (asc ''Mid-Market'')) value_prop
           \<and> generate_email_body ld (Company_DNA r) value_prop sender_name
               = generate_email_body ld (PStr (asc ''Mid-Market'')) value_prop sender_name
           \<and> generate_linkedin_message ld (Company_DNA r) value_prop
               = generate_linkedin_message ld (PStr (asc ''Mid-Market'')) value_prop"
    using subject_fallback body_fallback message_fallback by metis
  then show "\<exists>ld. normalize_row items = Inr ld
           \<and> generate_email_subject ld (PStr (asc ''Mid-Market'')) value_prop
               = Inr (Email_Subject r)
           \<and> generate_email_body ld (PStr (asc ''Mid-Market'')) value_prop sender_name
               = Inr (Email_Body r)
           \<and> generate_linkedin_message ld (PStr (asc ''Mid-Market'')) value_prop
               = Inr (LinkedIn_Message r)"
    using ld by metis
qed

theorem unknown_archetype_is_mid_market_witness:
  "generate_email_subject
     [asc ''first_name'' \<mapsto> PStr (asc ''Jane''), asc ''company'' \<mapsto> PStr (asc ''Acme'')]
     (PStr (asc ''Startup'')) (asc ''X'')
     = Inr (asc ''Jane - Acme's next growth lever'')
   \<and> generate_email_subject
     [asc ''first_name'' \<mapsto> PStr (asc ''Jane''), asc ''company'' \<mapsto> PStr (asc ''Acme'')]
     PNaN (asc ''X'')
     = Inr (asc ''Jane - Acme's next growth lever'')
   \<and> generate_email_body
     [asc ''first_name'' \<mapsto> PStr (asc ''Jane''), asc ''company'' \<mapsto> PStr (asc ''Acme'')]
     (PStr (asc ''Startup'')) (asc ''X'') (asc ''Y'')
     = Inr (asc ''Hi Jane,'' @ [nl, nl] @ asc ''Quick note '' @ [emdash] @
              asc '' I work with mid-market companies like Acme on X.'' @ [nl, nl] @
              asc ''The common challenge I see: growing pains. The solution doesn't have to be complex.'' @
              [nl, nl] @
              asc ''If this resonates, I'd love to share a framework that's helped similar teams. 15 minutes '' @
              [emdash] @ asc '' no pitch, just value.'' @ [nl, nl] @ asc ''Best,'' @ [nl] @
              asc ''Y'')
   \<and> generate_linkedin_message
     [asc ''first_name'' \<mapsto> PStr (asc ''Jane''), asc ''company'' \<mapsto> PStr (asc ''Acme'')]
     (PStr (asc ''Startup'')) (asc ''X'')
     = Inr (asc ''Hi Jane '' @ [emdash] @
              asc '' Acme looks like a great fit for some ideas I have on X. Would love to connect.'')
   \<and> pain_of (PStr (asc ''Startup'')) = Inr (asc ''growing pains'')
   \<and> company_dna_of False Map.empty
       [asc ''first_name'' \<mapsto> PStr (asc ''Jane''), asc ''company'' \<mapsto> PStr (asc ''Acme'')]
     = PStr (asc ''Mid-Market'')
   \<and> (\<exists>r. process_row [(asc ''First Name'', PStr (asc ''Jane'')),
                         (asc ''Company DNA'', PStr (asc ''Startup''))]
              (asc ''X'') (asc ''Y'') False = Inr r
          \<and> Company_DNA r = PStr (asc ''Startup'')
          \<and> generate_email_subject
               [asc ''first_name'' \<mapsto> PStr (asc ''Jane''),
                asc ''company'' \<mapsto> PStr (asc ''Unknown'')]
               (PStr (asc ''Mid-Market'')) (asc ''X'') = Inr (Email_Subject r))"
proof -
  let ?r = "[asc ''first_name'' \<mapsto> PStr (asc ''Jane''), asc ''company'' \<mapsto> PStr (asc ''Acme'')]"
  let ?known = "PStr ` {asc ''High-Growth Startup'', asc ''Enterprise'', asc ''Mid-Market'',
                        asc ''Agency/Consultancy''}"
  let ?items = "[(asc ''First Name'', PStr (asc ''Jane'')),
                 (asc ''Company DNA'', PStr (asc ''Startup''))]"
  have u1: "PStr (asc ''Startup'') \<notin> ?known" by (simp add: asc_def)
  have u2: "PNaN \<notin> ?known" by auto
  have "?r (asc ''name'') = None" by (simp add: asc_def)
  then have "first_name_of ?r = Inr (dict_get ?r (asc ''first_name'') (PStr (asc ''there'')))"
    by (rule first_name_of_no_name)
  moreover have "dict_get ?r (asc ''first_name'') (PStr (asc ''there'')) = PStr (asc ''Jane'')"
    by (simp add: dict_get_def asc_def)
  ultimately have f: "first_name_of ?r = Inr (PStr (asc ''Jane''))" by simp
  have e: "Map.empty (asc ''company_dna'') = (None :: pyval option)" by simp
  have subj: "py_str (PStr (asc ''Jane'')) @ asc '' - '' @
             py_str (dict_get ?r (asc ''company'') (PStr (asc ''your team''))) @
             [39] @ asc ''s next growth lever'' = asc ''Jane - Acme's next growth lever''"
    by (simp add: dict_get_def asc_def)
  have na: "name_usable (row_dict ?items (asc ''name''))"
    by (simp add: row_eval name_usable_def)
  obtain r where r: "process_row ?items (asc ''X'') (asc ''Y'') False = Inr r"
    using process_row_returns[OF na] by blast
  have dna: "row_dict ?items (asc ''company_dna'') = Some (PStr (asc ''Startup''))"
    by (simp add: row_eval)
  have h: "case row_dict ?items (asc ''company_dna'') of None \<Rightarrow> True | Some u \<Rightarrow> u \<notin> ?known"
    unfolding dna using u1 by simp
  have nr: "normalize_row ?items =
      Inr [asc ''first_name'' \<mapsto> PStr (asc ''Jane''), asc ''last_name'' \<mapsto> PStr [],
           asc ''company'' \<mapsto> PStr (asc ''Unknown''), asc ''title'' \<mapsto> PStr [],
           asc ''email'' \<mapsto> PStr [], asc ''linkedin'' \<mapsto> PStr [],
           asc ''employees'' \<mapsto> PStr []]"
    by (simp add: normalize_row_def lead_data_def name_default_def dict_get_def ebind_def
          row_eval)
  note t1 = unknown_archetype_is_mid_market
              [of "PStr (asc ''Startup'')" ?r "asc ''X''" "asc ''Y''" Map.empty
                  "PStr (asc ''Jane'')" ?items r]
  note t2 = unknown_archetype_is_mid_market
              [of PNaN ?r "asc ''X''" "asc ''Y''" Map.empty "PStr (asc ''Jane'')" ?items r]
  have m: "generate_email_subject ?r (PStr (asc ''Mid-Market'')) (asc ''X'')
           = Inr (asc ''Jane - Acme's next growth lever'')"
    using t1 f unfolding subj by blast
  have s1: "generate_email_subject ?r (PStr (asc ''Startup'')) (asc ''X'')
            = generate_email_subject ?r (PStr (asc ''Mid-Market'')) (asc ''X'')"
    using t1 u1 by blast
  have s2: "generate_email_subject ?r PNaN (asc ''X'')
            = generate_email_subject ?r (PStr (asc ''Mid-Market'')) (asc ''X'')"
    using t2 u2 by blast
  have p: "pain_of (PStr (asc ''Startup'')) = Inr (asc ''growing pains'')"
    using t1 u1 by blast
  have "generate_email_body ?r (PStr (asc ''Startup'')) (asc ''X'') (asc ''Y'') =
          Inr (asc ''Hi '' @ py_str (PStr (asc ''Jane'')) @ asc '','' @ [nl, nl] @ asc ''Quick note '' @
              [emdash] @ asc '' I work with mid-market companies like '' @
              py_str (dict_get ?r (asc ''company'') (PStr (asc ''your company''))) @
              asc '' on '' @ asc ''X'' @ asc ''.'' @ [nl, nl] @
              asc ''The common challenge I see: '' @ asc ''growing pains'' @
              asc ''. The solution doesn't have to be complex.'' @ [nl, nl] @
              asc ''If this resonates, I'd love to share a framework that's helped similar teams. 15 minutes '' @
              [emdash] @ asc '' no pitch, just value.'' @ [nl, nl] @ asc ''Best,'' @ [nl] @
              asc ''Y'')"
    using t1 u1 f by blast
  then have bd: "generate_email_body ?r (PStr (asc ''Startup'')) (asc ''X'') (asc ''Y'') =
          Inr (asc ''Hi Jane,'' @ [nl, nl] @ asc ''Quick note '' @ [emdash] @
              asc '' I work with mid-market companies like Acme on X.'' @ [nl, nl] @
              asc ''The common challenge I see: growing pains. The solution doesn't have to be complex.'' @
              [nl, nl] @
              asc ''If this resonates, I'd love to share a framework that's helped similar teams. 15 minutes '' @
              [emdash] @ asc '' no pitch, just value.'' @ [nl, nl] @ asc ''Best,'' @ [nl] @
              asc ''Y'')"
    by (simp add: dict_get_def asc_def)
  obtain msg where msg: "msg =
              asc ''Hi '' @ py_str (PStr (asc ''Jane'')) @ asc '' '' @ [emdash] @ asc '' '' @
              py_str (dict_get ?r (asc ''company'') (PStr (asc ''your company''))) @
              asc '' looks like a great fit for some ideas I have on '' @ asc ''X'' @
              asc ''. Would love to connect.''"
    "generate_linkedin_message ?r (PStr (asc ''Startup'')) (asc ''X'') =
       Inr (if length msg > 300 then take 295 msg @ asc ''...'' else msg)"
    using t1 u1 f by blast
  have "msg = asc ''Hi Jane '' @ [emdash] @
              asc '' Acme looks like a great fit for some ideas I have on X. Would love to connect.''"
    unfolding msg(1) by (simp add: dict_get_def asc_def)
  moreover from this have "\<not> length msg > 300" by (simp add: asc_def)
  ultimately have mg: "generate_linkedin_message ?r (PStr (asc ''Startup'')) (asc ''X'') =
       Inr (asc ''Hi Jane '' @ [emdash] @
              asc '' Acme looks like a great fit for some ideas I have on X. Would love to connect.'')"
    using msg(2) by simp
  have d: "company_dna_of False Map.empty ?r = PStr (asc ''Mid-Market'')"
    using t1 e by blast
  obtain ld where ld: "normalize_row ?items = Inr ld"
      "generate_email_subject ld (PStr (asc ''Mid-Market'')) (asc ''X'') = Inr (Email_Subject r)"
    using t1 r h by blast
  have same: "generate_email_subject ld (PStr (asc ''Mid-Market'')) (asc ''X'')
      = generate_email_subject
          [asc ''first_name'' \<mapsto> PStr (asc ''Jane''),
           asc ''company'' \<mapsto> PStr (asc ''Unknown'')]
          (PStr (asc ''Mid-Market'')) (asc ''X'')"
    using ld(1) unfolding nr
    by (auto simp: generate_email_subject_def first_name_of_def dict_get_def asc_def)
  obtain ld' where "Company_DNA r = company_dna_of False (row_dict ?items) ld'"
    using process_row_scripts[OF r] by blast
  then have cd: "Company_DNA r = PStr (asc ''Startup'')"
    by (simp add: company_dna_of_def dict_get_def dna)
  have e2e: "\<exists>r. process_row ?items (asc ''X'') (asc ''Y'') False = Inr r
          \<and> Company_DNA r = PStr (asc ''Startup'')
          \<and> generate_email_subject
               [asc ''first_name'' \<mapsto> PStr (asc ''Jane''),
                asc ''company'' \<mapsto> PStr (asc ''Unknown'')]
               (PStr (asc ''Mid-Market'')) (asc ''X'') = Inr (Email_Subject r)"
    using r cd ld(2) same by auto
  show ?thesis using m s1 s2 bd mg p d e2e by simp
qed

section \<open>Further facts\<close>

text \<open>The text of an integer within the digit limit converts back to it, so the size
  rule also applies to an employees value that is such a number other than 0.\<close>

lemma digits_of_digits: "list_all is_digit (digits_of n)"
proof (induction n rule: digits_of.induct)
  case (1 n)
  have "n mod 10 < 10" by simp
  then have "48 + n mod 10 \<le> 57" by linarith
  then show ?case
    using 1 by (subst digits_of.simps) (auto simp: is_digit_def list_all_iff)
qed

lemma scan_digits_all:
  "list_all is_digit ds \<Longrightarrow>
     scan_digits acc k ds =
       Some (foldl (\<lambda>a d. a * 10 + int (d - 48)) acc ds, k + length ds, [])"
  by (induction ds arbitrary: acc k) auto

lemma digits_of_value: "foldl (\<lambda>a d. a * 10 + int (d - 48)) 0 (digits_of n) = int n"
proof (induction n rule: digits_of.induct)
  case (1 n)
  show ?case
  proof (cases "n < 10")
    case True
    then show ?thesis by (subst digits_of.simps) simp
  next
    case False
    then have "foldl (\<lambda>a d. a * 10 + int (d - 48)) 0 (digits_of n)
               = int (n div 10) * 10 + int (n mod 10)"
      using 1 by (subst digits_of.simps) simp
    also have "\<dots> = int n" by presburger
    finally show ?thesis .
  qed
qed

lemma digits_of_Cons: "\<exists>d ds. digits_of n = d # ds \<and> is_digit d \<and> list_all is_digit ds"
proof -
  have "digits_of n \<noteq> []" by (subst digits_of.simps) simp
  then show ?thesis using digits_of_digits[of n] by (cases "digits_of n") auto
qed

lemma parse_number_digits:
  assumes "length (digits_of n) \<le> max_str_digits"
  shows "parse_number (digits_of n) = Some (int n)"
proof -
  obtain d ds where e: "digits_of n = d # ds" "is_digit d" "list_all is_digit ds"
    using digits_of_Cons by blast
  have "scan_digits (int (d - 48)) 1 ds =
          Some (foldl (\<lambda>a d. a * 10 + int (d - 48)) 0 (d # ds), length (d # ds), [])"
    using scan_digits_all[OF e(3)] by simp
  then show ?thesis
    using e assms digits_of_value[of n] by (simp add: parse_number_def)
qed

lemma digits_to_ascii: "list_all is_digit ds \<Longrightarrow> map to_ascii ds = ds"
  by (induction ds) (auto simp: to_ascii_def is_digit_def)

lemma digits_py_remove: "list_all is_digit ds \<Longrightarrow> \<not> is_digit a \<Longrightarrow> py_remove a ds = ds"
  by (induction ds) auto

lemma py_int_str_of_int:
  assumes "length (digits_of (nat \<bar>k\<bar>)) \<le> max_str_digits"
  shows "py_int (py_remove 43 (py_remove 44 (str_of_int k))) = Some k"
proof -
  obtain d ds where e: "digits_of (nat \<bar>k\<bar>) = d # ds" "is_digit d" "list_all is_digit ds"
    using digits_of_Cons by blast
  have all: "list_all is_digit (digits_of (nat \<bar>k\<bar>))" by (rule digits_of_digits)
  have r: "py_remove 43 (py_remove 44 (digits_of (nat \<bar>k\<bar>))) = digits_of (nat \<bar>k\<bar>)"
    using digits_py_remove[OF all, of 43] digits_py_remove[OF all, of 44]
    by (simp add: is_digit_def)
  have m: "map to_ascii (digits_of (nat \<bar>k\<bar>)) = digits_of (nat \<bar>k\<bar>)"
    using digits_to_ascii[OF all] .
  have nb: "\<not> is_blank d" "d \<noteq> 43" "d \<noteq> 45"
    using e(2) by (auto simp: is_digit_def is_blank_def)
  have p: "parse_number (d # ds) = Some (int (nat \<bar>k\<bar>))"
    using parse_number_digits[OF assms] e(1) by simp
  show ?thesis
  proof (cases "k < 0")
    case True
    then have "py_remove 43 (py_remove 44 (str_of_int k)) = 45 # digits_of (nat \<bar>k\<bar>)"
      using r by (simp add: str_of_int_def abs_if)
    then show ?thesis
      using True m e(1) p by (simp add: py_int_def to_ascii_def is_blank_def parse_signed_def)
  next
    case False
    then have "py_remove 43 (py_remove 44 (str_of_int k)) = digits_of (nat \<bar>k\<bar>)"
      using r by (simp add: str_of_int_def abs_if)
    then show ?thesis
      using False m e(1) p nb by (simp add: py_int_def parse_signed_def)
  qed
qed

lemma size_rule_applies_number:
  assumes "row (asc ''employees'') = Some (PInt k)" and "k \<noteq> 0"
    and "length (digits_of (nat \<bar>k\<bar>)) \<le> max_str_digits"
  shows "detect_company_dna row = size_dna k"
proof -
  have "employees_value row = PInt k" using assms(1) by (rule employees_value_present)
  then have "employee_count row = Some k"
    using assms(2) py_int_str_of_int[OF assms(3)] by (simp add: employee_count_def)
  then show ?thesis by (simp only: detect_company_dna_unfold option.case)
qed

text \<open>The scenario of the specification: the row with name "Jane Doe", company
  "Acme Inc", title "VP of Sales" and employees "800", with value proposition "X" and
  sender "Y".  The size rule decides before the keyword "inc" is looked at.\<close>

lemma scenario_jane_doe:
  "\<exists>r. process_leads
          [[(asc ''name'', PStr (asc ''Jane Doe'')), (asc ''company'', PStr (asc ''Acme Inc'')),
            (asc ''title'', PStr (asc ''VP of Sales'')), (asc ''employees'', PStr (asc ''800''))]]
          (asc ''X'') (asc ''Y'') True = Inr [r]
       \<and> First_Name r = PStr (asc ''Jane'')
       \<and> Priority r = asc ''P1 - Hot''
       \<and> Company_DNA r = PStr (asc ''Enterprise'')
       \<and> Email_Subject r = asc ''Strategic alignment: Acme Inc revenue operations''
       \<and> take 8 (Email_Body r) = asc ''Hi Jane,''"
  by (simp add: process_leads_def process_row_def lead_data_def name_default_def
        company_dna_of_def detect_company_dna_def assign_priority_def
        generate_email_subject_def generate_email_body_def generate_linkedin_message_def
        first_name_of_def subjects_def templates_def messages_def pain_of_def
        COMPANY_DNA_PROFILES_def truncate_msg_def
        dict_get_def dict_item_def dict_get_val_def index0_def split_first_def py_split_def
        is_space_def ebind_def Let_def int_eval row_eval nl_def emdash_def)


text \<open>Digits beyond ASCII convert as well: the Arabic-Indic digits four and five,
  U+0664 and U+0665, are the count 45.  A numeral of more digits than the limit does
  not convert.\<close>

lemma arabic_indic_digits:
  "py_int [1636, 1637] = Some 45"
  "detect_company_dna
     [asc ''employees'' \<mapsto> PStr [1636, 1637], asc ''company'' \<mapsto> PStr (asc ''Acme Partners'')]
   = asc ''High-Growth Startup''"
proof -
  let ?r = "[asc ''employees'' \<mapsto> PStr [1636, 1637],
             asc ''company'' \<mapsto> PStr (asc ''Acme Partners'')]"
  show c: "py_int [1636, 1637] = Some 45"
    by (simp add: int_eval is_space_def decimal_value_def decimal_starts_def)
  have "?r (asc ''employees'') = Some (PStr [1636, 1637])" by (simp add: asc_def)
  moreover have "py_int (filter (\<lambda>c. c \<noteq> 44 \<and> c \<noteq> 43) [1636, 1637]) = Some 45"
    using c by simp
  ultimately have "detect_company_dna ?r = size_dna 45" by (rule cleaned_count_decides)
  then show "detect_company_dna ?r = asc ''High-Growth Startup''" by (simp add: size_dna_def)
qed

lemma digit_limit:
  assumes "list_all is_digit ds" and "length ds > max_str_digits"
  shows "py_int ds = None"
proof -
  obtain d ds' where e: "ds = d # ds'" using assms(2) by (cases ds) auto
  have d: "is_digit d" "list_all is_digit ds'" using assms(1) e by auto
  have nb: "\<not> is_blank d" "d \<noteq> 43" "d \<noteq> 45"
    using d(1) by (auto simp: is_digit_def is_blank_def)
  have "scan_digits (int (d - 48)) 1 ds' =
          Some (foldl (\<lambda>a d. a * 10 + int (d - 48)) (int (d - 48)) ds', 1 + length ds', [])"
    by (rule scan_digits_all[OF d(2)])
  then have "parse_number ds = None"
    using e d(1) assms(2) by (simp add: parse_number_def)
  moreover have "map to_ascii ds = ds" using assms(1) by (rule digits_to_ascii)
  ultimately show ?thesis using e nb by (simp add: py_int_def parse_signed_def)
qed

end
